theory Spec2Isabelle
  imports Main "HOL-Library.Word"
begin

section \<open>JavaScript values\<close>

text \<open>
  A JavaScript string is a sequence of UTF-16 code units; it is modelled as the list of
  its code units. \<open>js\<close> turns an ASCII literal of the source into such a list.
  A \<open>Uint8Array\<close> is a list of bytes.
\<close>

type_synonym jsstring = "nat list"

type_synonym byte = "8 word"

definition js :: "string \<Rightarrow> jsstring" where
  "js s = map of_char s"

text \<open>
  The exceptions the utilities can raise: \<open>OAuthError(code, description, statusCode)\<close>
  of the source, the plain \<open>Error\<close> of \<open>importKey\<close>, and the
  \<open>InvalidCharacterError\<close> that \<open>atob\<close> and \<open>btoa\<close> raise.
\<close>

datatype exn =
    OAuthError string string nat
  | Error string
  | InvalidCharacterError

text \<open>
  The result of \<open>JSON.parse\<close>. A number is kept as its JSON text (the utilities never look
  inside one), an object as the list of its members.
\<close>

datatype json =
    JNull
  | JBool bool
  | JNumber jsstring
  | JString jsstring
  | JArray "json list"
  | JObject "(jsstring \<times> json) list"

text \<open>A value of \<open>FormData.get\<close>: a string or a file.\<close>

datatype formEntry = FormString jsstring | FormFile

type_synonym formData = "(jsstring \<times> formEntry) list"

text \<open>
  What the utilities read of a \<open>Request\<close>: the decoded query parameters of its URL
  (\<open>new URL(request.url).searchParams\<close>) and its \<open>Cookie\<close> header
  (\<open>request.headers.get('Cookie')\<close>, \<open>None\<close> when the header is absent).
\<close>

record request =
  searchParams :: "(jsstring \<times> jsstring) list"
  cookieHeader :: "jsstring option"

text \<open>
  The key-value namespace: \<open>get\<close> is application, \<open>put\<close> and \<open>delete\<close> are map
  updates. Expiry is left to the store; an expired entry is an absent key.
\<close>

type_synonym kv = "jsstring \<rightharpoonup> jsstring"

text \<open>
  The functions of the runtime that the utilities call and that are no part of the
  repository are parameters of the model: \<open>TextEncoder.encode\<close>, the digest and the MAC
  of \<open>crypto.subtle\<close>, \<open>JSON.parse\<close> (\<open>None\<close> when it throws), \<open>JSON.stringify\<close>,
  the \<open>protocol\<close> of \<open>new URL(s)\<close> (\<open>None\<close> when the constructor throws) and
  \<open>String.prototype.toLowerCase\<close>.
\<close>

record platform =
  textEncode :: "jsstring \<Rightarrow> byte list"
  sha256 :: "byte list \<Rightarrow> byte list"
  hmacSha256 :: "byte list \<Rightarrow> byte list \<Rightarrow> byte list"
  jsonParse :: "jsstring \<Rightarrow> json option"
  jsonStringify :: "json \<Rightarrow> jsstring"
  urlProtocol :: "jsstring \<Rightarrow> jsstring option"
  toLowerCase :: "jsstring \<Rightarrow> jsstring"

section \<open>String operations\<close>

text \<open>\<open>String.prototype.trim\<close> removes white space and line terminators at both ends.\<close>

definition isWhiteSpace :: "nat \<Rightarrow> bool" where
  "isWhiteSpace c \<longleftrightarrow>
     c \<in> {0x09, 0x0A, 0x0B, 0x0C, 0x0D, 0x20, 0xA0, 0x1680, 0x2028, 0x2029, 0x202F, 0x205F,
          0x3000, 0xFEFF}
     \<or> (0x2000 \<le> c \<and> c \<le> 0x200A)"

definition trim :: "jsstring \<Rightarrow> jsstring" where
  "trim s = rev (dropWhile isWhiteSpace (rev (dropWhile isWhiteSpace s)))"

text \<open>\<open>s.split(sep)\<close> for a separator of one code unit.\<close>

fun splitOn :: "nat \<Rightarrow> jsstring \<Rightarrow> jsstring list" where
  "splitOn sep [] = [[]]"
| "splitOn sep (c # cs) =
     (if c = sep then [] # splitOn sep cs
      else (case splitOn sep cs of
              [] \<Rightarrow> [[c]]
            | p # ps \<Rightarrow> (c # p) # ps))"

definition startsWith :: "jsstring \<Rightarrow> jsstring \<Rightarrow> bool" where
  "startsWith s p \<longleftrightarrow> take (length p) s = p"

text \<open>
  The cookie lookup the source writes out three times:
  \<open>cookieHeader.split(';').map((c) => c.trim())\<close>, then
  \<open>find((c) => c.startsWith(name + '='))\<close>, then \<open>substring(name.length + 1)\<close>.
\<close>

definition cookieValue :: "string \<Rightarrow> jsstring \<Rightarrow> jsstring option" where
  "cookieValue name header =
     (let cookies = map trim (splitOn 0x3B header) in
      case find (\<lambda>c. startsWith c (js name @ js ''='')) cookies of
        None \<Rightarrow> None
      | Some c \<Rightarrow> Some (drop (length name + 1) c))"

text \<open>\<open>request.headers.get('Cookie') || ''\<close>.\<close>

definition cookieHeaderOrEmpty :: "request \<Rightarrow> jsstring" where
  "cookieHeaderOrEmpty req = (case cookieHeader req of None \<Rightarrow> [] | Some h \<Rightarrow> h)"

section \<open>Sanitization\<close>

text \<open>The loop of \<open>sanitizeUrl\<close> over \<open>charCodeAt(i)\<close>.\<close>

fun hasControlChar :: "jsstring \<Rightarrow> bool" where
  "hasControlChar [] = False"
| "hasControlChar (code # rest) =
     (if (0x00 \<le> code \<and> code \<le> 0x1f) \<or> (0x7f \<le> code \<and> code \<le> 0x9f) then True
      else hasControlChar rest)"

definition allowedSchemes :: "jsstring list" where
  "allowedSchemes = [js ''https'', js ''http'']"

definition sanitizeUrl :: "platform \<Rightarrow> jsstring \<Rightarrow> jsstring" where
  "sanitizeUrl pf url =
     (let normalized = trim url in
      if length normalized = 0 then []
      else if hasControlChar normalized then []
      else (case urlProtocol pf normalized of
              None \<Rightarrow> []
            | Some protocol \<Rightarrow>
                (let scheme = toLowerCase pf (butlast protocol) in
                 if \<not> List.member allowedSchemes scheme then [] else normalized)))"

section \<open>CSRF protection\<close>

record CSRFProtectionResult =
  csrfToken :: jsstring
  csrfSetCookie :: jsstring

text \<open>\<open>uuid\<close> is the value \<open>crypto.randomUUID()\<close> returns.\<close>

definition generateCSRFProtection :: "jsstring \<Rightarrow> CSRFProtectionResult" where
  "generateCSRFProtection uuid =
     \<lparr>csrfToken = uuid,
      csrfSetCookie = js ''__Host-CSRF_TOKEN'' @ js ''='' @ uuid
        @ js ''; HttpOnly; Secure; Path=/; SameSite=Lax; Max-Age=600''\<rparr>"

definition csrfClearCookie :: jsstring where
  "csrfClearCookie = js ''__Host-CSRF_TOKEN=; HttpOnly; Secure; Path=/; SameSite=Lax; Max-Age=0''"

definition validateCSRFToken :: "formData \<Rightarrow> request \<Rightarrow> exn + jsstring" where
  "validateCSRFToken form req =
     (case map_of form (js ''csrf_token'') of
        None \<Rightarrow> Inl (OAuthError ''invalid_request'' ''Missing CSRF token in form data'' 400)
      | Some FormFile \<Rightarrow>
          Inl (OAuthError ''invalid_request'' ''Missing CSRF token in form data'' 400)
      | Some (FormString tokenFromForm) \<Rightarrow>
          if tokenFromForm = [] then
            Inl (OAuthError ''invalid_request'' ''Missing CSRF token in form data'' 400)
          else
            (case cookieValue ''__Host-CSRF_TOKEN'' (cookieHeaderOrEmpty req) of
               None \<Rightarrow> Inl (OAuthError ''invalid_request'' ''Missing CSRF token cookie'' 400)
             | Some tokenFromCookie \<Rightarrow>
                 if tokenFromCookie = [] then
                   Inl (OAuthError ''invalid_request'' ''Missing CSRF token cookie'' 400)
                 else if tokenFromForm \<noteq> tokenFromCookie then
                   Inl (OAuthError ''invalid_request'' ''CSRF token mismatch'' 400)
                 else Inr csrfClearCookie))"

section \<open>Hexadecimal text\<close>

text \<open>\<open>b.toString(16).padStart(2, '0')\<close>, joined over the bytes of a buffer.\<close>

definition digitChar :: "nat \<Rightarrow> nat" where
  "digitChar d = (if d < 10 then 0x30 + d else 0x61 + (d - 10))"

function toString16 :: "nat \<Rightarrow> jsstring" where
  "toString16 n = (if n < 16 then [digitChar n] else toString16 (n div 16) @ [digitChar (n mod 16)])"
  by pat_completeness auto
termination
  by (relation "measure id") auto

declare toString16.simps [simp del]

definition padStart :: "nat \<Rightarrow> nat \<Rightarrow> jsstring \<Rightarrow> jsstring" where
  "padStart targetLength padChar s = replicate (targetLength - length s) padChar @ s"

definition hexOfBytes :: "byte list \<Rightarrow> jsstring" where
  "hexOfBytes bs = concat (map (\<lambda>b. padStart 2 0x30 (toString16 (unat b))) bs)"

text \<open>
  \<open>signatureHex.match(/.{1,2}/g)\<close>: the dot matches every code unit but a line
  terminator; the empty list stands for \<open>null\<close> (no match).
\<close>

definition isLineTerminator :: "nat \<Rightarrow> bool" where
  "isLineTerminator c \<longleftrightarrow> c \<in> {0x0A, 0x0D, 0x2028, 0x2029}"

fun matchPairs :: "jsstring \<Rightarrow> jsstring list" where
  "matchPairs [] = []"
| "matchPairs [a] = (if isLineTerminator a then [] else [[a]])"
| "matchPairs (a # b # cs) =
     (if isLineTerminator a then matchPairs (b # cs)
      else if isLineTerminator b then [a] # matchPairs cs
      else [a, b] # matchPairs cs)"

text \<open>
  \<open>Number.parseInt(s, 16)\<close>: leading white space, a sign and a \<open>0x\<close> prefix are
  skipped, then the longest run of hexadecimal digits is read; \<open>None\<close> is \<open>NaN\<close>.
\<close>

definition hexDigitValue :: "nat \<Rightarrow> nat option" where
  "hexDigitValue c =
     (if 0x30 \<le> c \<and> c \<le> 0x39 then Some (c - 0x30)
      else if 0x61 \<le> c \<and> c \<le> 0x66 then Some (c - 0x61 + 10)
      else if 0x41 \<le> c \<and> c \<le> 0x46 then Some (c - 0x41 + 10)
      else None)"

fun hexDigits :: "jsstring \<Rightarrow> nat list" where
  "hexDigits [] = []"
| "hexDigits (c # cs) = (case hexDigitValue c of None \<Rightarrow> [] | Some d \<Rightarrow> d # hexDigits cs)"

definition parseInt16 :: "jsstring \<Rightarrow> int option" where
  "parseInt16 str =
     (let s = dropWhile isWhiteSpace str;
          sign = (case s of c # _ \<Rightarrow> if c = 0x2D then - 1 else 1 | [] \<Rightarrow> (1::int));
          s1 = (case s of c # rest \<Rightarrow> if c = 0x2B \<or> c = 0x2D then rest else s | [] \<Rightarrow> s);
          s2 = (if take 2 s1 = js ''0x'' \<or> take 2 s1 = js ''0X'' then drop 2 s1 else s1);
          z = hexDigits s2
      in if z = [] then None else Some (sign * int (foldl (\<lambda>acc d. 16 * acc + d) 0 z)))"

text \<open>An element of \<open>new Uint8Array(numbers)\<close>: \<open>NaN\<close> becomes 0, an integer wraps.\<close>

definition toUint8 :: "int option \<Rightarrow> byte" where
  "toUint8 v = (case v of None \<Rightarrow> 0 | Some i \<Rightarrow> word_of_int i)"

section \<open>Base64\<close>

text \<open>\<open>btoa\<close> and \<open>atob\<close> of the runtime (the forgiving base64 decoder).\<close>

definition encode6 :: "nat \<Rightarrow> nat" where
  "encode6 n =
     (if n < 26 then 0x41 + n
      else if n < 52 then 0x61 + (n - 26)
      else if n < 62 then 0x30 + (n - 52)
      else if n = 62 then 0x2B
      else 0x2F)"

definition decode6 :: "nat \<Rightarrow> nat option" where
  "decode6 c =
     (if 0x41 \<le> c \<and> c \<le> 0x5A then Some (c - 0x41)
      else if 0x61 \<le> c \<and> c \<le> 0x7A then Some (c - 0x61 + 26)
      else if 0x30 \<le> c \<and> c \<le> 0x39 then Some (c - 0x30 + 52)
      else if c = 0x2B then Some 62
      else if c = 0x2F then Some 63
      else None)"

fun base64Encode :: "nat list \<Rightarrow> jsstring" where
  "base64Encode (a # b # c # rest) =
     [encode6 (a div 4), encode6 ((a mod 4) * 16 + b div 16),
      encode6 ((b mod 16) * 4 + c div 64), encode6 (c mod 64)] @ base64Encode rest"
| "base64Encode [a, b] =
     [encode6 (a div 4), encode6 ((a mod 4) * 16 + b div 16), encode6 ((b mod 16) * 4), 0x3D]"
| "base64Encode [a] = [encode6 (a div 4), encode6 ((a mod 4) * 16), 0x3D, 0x3D]"
| "base64Encode [] = []"

definition btoa :: "jsstring \<Rightarrow> exn + jsstring" where
  "btoa s = (if list_ex (\<lambda>c. 0xFF < c) s then Inl InvalidCharacterError else Inr (base64Encode s))"

definition isAsciiWhitespace :: "nat \<Rightarrow> bool" where
  "isAsciiWhitespace c \<longleftrightarrow> c \<in> {0x09, 0x0A, 0x0C, 0x0D, 0x20}"

definition stripPadding :: "jsstring \<Rightarrow> jsstring" where
  "stripPadding d =
     (case rev d of
        x # y # r \<Rightarrow> if x = 0x3D \<and> y = 0x3D then rev r else if x = 0x3D then rev (y # r) else d
      | [x] \<Rightarrow> if x = 0x3D then [] else d
      | [] \<Rightarrow> d)"

fun base64Decode :: "nat list \<Rightarrow> jsstring" where
  "base64Decode (p # q # r # s # rest) =
     [p * 4 + q div 16, (q mod 16) * 16 + r div 4, (r mod 4) * 64 + s] @ base64Decode rest"
| "base64Decode [p, q, r] = [p * 4 + q div 16, (q mod 16) * 16 + r div 4]"
| "base64Decode [p, q] = [p * 4 + q div 16]"
| "base64Decode [p] = []"
| "base64Decode [] = []"

definition atob :: "jsstring \<Rightarrow> exn + jsstring" where
  "atob data =
     (let d1 = filter (\<lambda>c. \<not> isAsciiWhitespace c) data;
          d2 = (if length d1 mod 4 = 0 then stripPadding d1 else d1)
      in if length d2 mod 4 = 1 then Inl InvalidCharacterError
         else (case those (map decode6 d2) of
                 None \<Rightarrow> Inl InvalidCharacterError
               | Some sextets \<Rightarrow> Inr (base64Decode sextets)))"

section \<open>OAuth state management\<close>

definition stateKey :: "jsstring \<Rightarrow> jsstring" where
  "stateKey stateToken = js ''oauth:state:'' @ stateToken"

text \<open>
  \<open>createOAuthState\<close>: \<open>uuid\<close> is the value \<open>crypto.randomUUID()\<close> returns. The result is
  the state token and the namespace after the \<open>put\<close>.
\<close>

definition createOAuthState :: "platform \<Rightarrow> jsstring \<Rightarrow> json \<Rightarrow> kv \<Rightarrow> jsstring \<times> kv" where
  "createOAuthState pf uuid oauthReqInfo store =
     (let stateToken = uuid in
      (stateToken, store(stateKey stateToken \<mapsto> jsonStringify pf oauthReqInfo)))"

text \<open>\<open>new URL(request.url).searchParams.get('state')\<close>.\<close>

definition stateParam :: "request \<Rightarrow> jsstring option" where
  "stateParam req = map_of (searchParams req) (js ''state'')"

definition stateHashHex :: "platform \<Rightarrow> jsstring \<Rightarrow> jsstring" where
  "stateHashHex pf stateToken = hexOfBytes (sha256 pf (textEncode pf stateToken))"

definition bindStateToSession :: "platform \<Rightarrow> jsstring \<Rightarrow> jsstring" where
  "bindStateToSession pf stateToken =
     js ''__Host-CONSENTED_STATE'' @ js ''='' @ stateHashHex pf stateToken
       @ js ''; HttpOnly; Secure; Path=/; SameSite=Lax; Max-Age=600''"

record ValidateStateResult =
  oauthReqInfo :: json
  clearCookie :: jsstring

definition stateClearCookie :: jsstring where
  "stateClearCookie =
     js ''__Host-CONSENTED_STATE=; HttpOnly; Secure; Path=/; SameSite=Lax; Max-Age=0''"

text \<open>
  \<open>validateOAuthState\<close> returns its outcome and the namespace it leaves behind: the
  only write is the \<open>delete\<close> before the successful return.
\<close>

definition validateOAuthState ::
  "platform \<Rightarrow> request \<Rightarrow> kv \<Rightarrow> (exn + ValidateStateResult) \<times> kv" where
  "validateOAuthState pf req store =
     (case stateParam req of
        None \<Rightarrow> (Inl (OAuthError ''invalid_request'' ''Missing state parameter'' 400), store)
      | Some stateFromQuery \<Rightarrow>
          if stateFromQuery = [] then
            (Inl (OAuthError ''invalid_request'' ''Missing state parameter'' 400), store)
          else
            (case store (stateKey stateFromQuery) of
               None \<Rightarrow> (Inl (OAuthError ''invalid_request'' ''Invalid or expired state'' 400), store)
             | Some storedDataJson \<Rightarrow>
                 if storedDataJson = [] then
                   (Inl (OAuthError ''invalid_request'' ''Invalid or expired state'' 400), store)
                 else
                   (case cookieValue ''__Host-CONSENTED_STATE'' (cookieHeaderOrEmpty req) of
                      None \<Rightarrow>
                        (Inl (OAuthError ''invalid_request''
                           ''Missing session binding cookie - authorization flow must be restarted''
                           400), store)
                    | Some consentedStateHash \<Rightarrow>
                        if consentedStateHash = [] then
                          (Inl (OAuthError ''invalid_request''
                             ''Missing session binding cookie - authorization flow must be restarted''
                             400), store)
                        else if stateHashHex pf stateFromQuery \<noteq> consentedStateHash then
                          (Inl (OAuthError ''invalid_request''
                             ''State token does not match session - possible CSRF attack detected''
                             400), store)
                        else
                          (case jsonParse pf storedDataJson of
                             None \<Rightarrow> (Inl (OAuthError ''server_error'' ''Invalid state data'' 500), store)
                           | Some info \<Rightarrow>
                               (Inr \<lparr>oauthReqInfo = info, clearCookie = stateClearCookie\<rparr>,
                                store(stateKey stateFromQuery := None))))))"

section \<open>Client approval caching\<close>

definition importKey :: "platform \<Rightarrow> jsstring \<Rightarrow> exn + byte list" where
  "importKey pf secret =
     (if secret = [] then Inl (Error ''cookieSecret is required for signing cookies'')
      else Inr (textEncode pf secret))"

definition signData :: "platform \<Rightarrow> jsstring \<Rightarrow> jsstring \<Rightarrow> exn + jsstring" where
  "signData pf data secret =
     (case importKey pf secret of
        Inl e \<Rightarrow> Inl e
      | Inr key \<Rightarrow> Inr (hexOfBytes (hmacSha256 pf key (textEncode pf data))))"

text \<open>
  \<open>verifySignature\<close>: \<open>importKey\<close> stands before the \<open>try\<close>; inside it, a \<open>null\<close> match
  raises and is caught, and \<open>crypto.subtle.verify\<close> compares the given bytes with the MAC.
\<close>

definition verifySignature :: "platform \<Rightarrow> jsstring \<Rightarrow> jsstring \<Rightarrow> jsstring \<Rightarrow> exn + bool" where
  "verifySignature pf signatureHex data secret =
     (case importKey pf secret of
        Inl e \<Rightarrow> Inl e
      | Inr key \<Rightarrow>
          (case matchPairs signatureHex of
             [] \<Rightarrow> Inr False
           | chunks \<Rightarrow>
               (let signatureBytes = map (\<lambda>byte. toUint8 (parseInt16 byte)) chunks in
                Inr (signatureBytes = hmacSha256 pf key (textEncode pf data)))))"

text \<open>\<open>Array.isArray(v) && v.every((item) => typeof item === 'string')\<close>.\<close>

fun isString :: "json \<Rightarrow> bool" where
  "isString (JString s) = True"
| "isString v = False"

fun stringOf :: "json \<Rightarrow> jsstring" where
  "stringOf (JString s) = s"
| "stringOf v = []"

definition asStringArray :: "json \<Rightarrow> jsstring list option" where
  "asStringArray v =
     (case v of
        JArray items \<Rightarrow> if list_all isString items then Some (map stringOf items) else None
      | _ \<Rightarrow> None)"

definition getApprovedClientsFromCookie ::
  "platform \<Rightarrow> request \<Rightarrow> jsstring \<Rightarrow> exn + jsstring list option" where
  "getApprovedClientsFromCookie pf req cookieSecret =
     (case cookieHeader req of
        None \<Rightarrow> Inr None
      | Some header \<Rightarrow>
          if header = [] then Inr None
          else
            (case cookieValue ''__Host-APPROVED_CLIENTS'' header of
               None \<Rightarrow> Inr None
             | Some value \<Rightarrow>
                 (case splitOn 0x2E value of
                    [signatureHex, base64Payload] \<Rightarrow>
                      (case atob base64Payload of
                         Inl e \<Rightarrow> Inl e
                       | Inr payload \<Rightarrow>
                           (case verifySignature pf signatureHex payload cookieSecret of
                              Inl e \<Rightarrow> Inl e
                            | Inr isValid \<Rightarrow>
                                if \<not> isValid then Inr None
                                else (case jsonParse pf payload of
                                        None \<Rightarrow> Inr None
                                      | Some approvedClients \<Rightarrow> Inr (asStringArray approvedClients))))
                  | _ \<Rightarrow> Inr None)))"

definition isClientApproved :: "platform \<Rightarrow> request \<Rightarrow> jsstring \<Rightarrow> jsstring \<Rightarrow> exn + bool" where
  "isClientApproved pf req clientId cookieSecret =
     (case getApprovedClientsFromCookie pf req cookieSecret of
        Inl e \<Rightarrow> Inl e
      | Inr None \<Rightarrow> Inr False
      | Inr (Some approvedClients) \<Rightarrow> Inr (List.member approvedClients clientId))"

text \<open>\<open>Array.from(new Set(xs))\<close>: the elements in the order of their first occurrence.\<close>

definition setToArray :: "jsstring list \<Rightarrow> jsstring list" where
  "setToArray xs = foldl (\<lambda>acc x. if List.member acc x then acc else acc @ [x]) [] xs"

text \<open>The constant 2592000 as the template literal of \<open>addApprovedClient\<close> prints it.\<close>

definition THIRTY_DAYS_IN_SECONDS :: jsstring where
  "THIRTY_DAYS_IN_SECONDS = js ''2592000''"

definition approvedPayload :: "platform \<Rightarrow> jsstring list \<Rightarrow> jsstring" where
  "approvedPayload pf clients = jsonStringify pf (JArray (map JString clients))"

definition addApprovedClient :: "platform \<Rightarrow> request \<Rightarrow> jsstring \<Rightarrow> jsstring \<Rightarrow> exn + jsstring" where
  "addApprovedClient pf req clientId cookieSecret =
     (case getApprovedClientsFromCookie pf req cookieSecret of
        Inl e \<Rightarrow> Inl e
      | Inr found \<Rightarrow>
          (let existingApprovedClients = (case found of None \<Rightarrow> [] | Some cs \<Rightarrow> cs);
               updatedApprovedClients = setToArray (existingApprovedClients @ [clientId]);
               payload = approvedPayload pf updatedApprovedClients
           in case signData pf payload cookieSecret of
                Inl e \<Rightarrow> Inl e
              | Inr signature \<Rightarrow>
                  (case btoa payload of
                     Inl e \<Rightarrow> Inl e
                   | Inr encoded \<Rightarrow>
                       Inr (js ''__Host-APPROVED_CLIENTS'' @ js ''='' @ signature @ js ''.'' @ encoded
                            @ js ''; HttpOnly; Secure; Path=/; SameSite=Lax; Max-Age=''
                            @ THIRTY_DAYS_IN_SECONDS))))"

section \<open>Names for the errors\<close>

abbreviation missingState :: exn where
  "missingState \<equiv> OAuthError ''invalid_request'' ''Missing state parameter'' 400"

abbreviation invalidOrExpiredState :: exn where
  "invalidOrExpiredState \<equiv> OAuthError ''invalid_request'' ''Invalid or expired state'' 400"

abbreviation missingSessionBinding :: exn where
  "missingSessionBinding \<equiv>
     OAuthError ''invalid_request''
       ''Missing session binding cookie - authorization flow must be restarted'' 400"

abbreviation sessionBindingMismatch :: exn where
  "sessionBindingMismatch \<equiv>
     OAuthError ''invalid_request''
       ''State token does not match session - possible CSRF attack detected'' 400"

abbreviation corruptState :: exn where
  "corruptState \<equiv> OAuthError ''server_error'' ''Invalid state data'' 500"

abbreviation missingCSRFForm :: exn where
  "missingCSRFForm \<equiv> OAuthError ''invalid_request'' ''Missing CSRF token in form data'' 400"

abbreviation missingCSRFCookie :: exn where
  "missingCSRFCookie \<equiv> OAuthError ''invalid_request'' ''Missing CSRF token cookie'' 400"

abbreviation csrfMismatch :: exn where
  "csrfMismatch \<equiv> OAuthError ''invalid_request'' ''CSRF token mismatch'' 400"

abbreviation secretRequired :: exn where
  "secretRequired \<equiv> Error ''cookieSecret is required for signing cookies''"

section \<open>The browser side\<close>

text \<open>
  Of a \<open>Set-Cookie\<close> directive a browser keeps the pair \<open>name=value\<close> that stands before
  the first semicolon, and sends that pair back in the \<open>Cookie\<close> header.
\<close>

definition cookiePair :: "jsstring \<Rightarrow> jsstring" where
  "cookiePair setCookie = takeWhile (\<lambda>c. c \<noteq> 0x3B) setCookie"

definition requestWith :: "(jsstring \<times> jsstring) list \<Rightarrow> jsstring option \<Rightarrow> request" where
  "requestWith params cookies = \<lparr>searchParams = params, cookieHeader = cookies\<rparr>"

text \<open>
  The callback for a state token from the browser that holds the binding cookie of
  \<open>bindStateToSession\<close>, and the request of a browser that holds an approval cookie.
\<close>

definition boundCallback :: "platform \<Rightarrow> jsstring \<Rightarrow> request" where
  "boundCallback pf stateToken =
     requestWith [(js ''state'', stateToken)] (Some (cookiePair (bindStateToSession pf stateToken)))"

definition requestCarrying :: "jsstring \<Rightarrow> request" where
  "requestCarrying setCookie = requestWith [] (Some (cookiePair setCookie))"



definition signatureBytes :: "jsstring \<Rightarrow> byte list" where
  "signatureBytes signatureHex = map (\<lambda>byte. toUint8 (parseInt16 byte)) (matchPairs signatureHex)"

definition isControl :: "nat \<Rightarrow> bool" where
  "isControl c \<longleftrightarrow> c \<le> 0x1F \<or> (0x7F \<le> c \<and> c \<le> 0x9F)"



section \<open>A runtime to run the utilities on\<close>

text \<open>
  The theorems below hold for every platform. To run the utilities on concrete inputs the
  parameters are filled in as follows: \<open>TextEncoder.encode\<close> as UTF-8, \<open>JSON.stringify\<close> and
  \<open>JSON.parse\<close> after the JSON grammar, the URL constructor by the scheme of its argument
  alone, \<open>toLowerCase\<close> on ASCII letters, and two stand-ins of the right output length
  (32 bytes) for the SHA-256 digest and the HMAC.
\<close>

fun utf8Encode :: "jsstring \<Rightarrow> byte list" where
  "utf8Encode [] = []"
| "utf8Encode (c # cs) =
     (if c < 0x80 then of_nat c # utf8Encode cs
      else if c < 0x800 then of_nat (0xC0 + c div 64) # of_nat (0x80 + c mod 64) # utf8Encode cs
      else if 0xD800 \<le> c \<and> c < 0xDC00 then
        (case cs of
           [] \<Rightarrow> [0xEF, 0xBF, 0xBD]
         | d # ds \<Rightarrow>
             if 0xDC00 \<le> d \<and> d < 0xE000 then
               (let cp = 0x10000 + (c - 0xD800) * 1024 + (d - 0xDC00) in
                of_nat (0xF0 + cp div 262144) # of_nat (0x80 + (cp div 4096) mod 64)
                  # of_nat (0x80 + (cp div 64) mod 64) # of_nat (0x80 + cp mod 64) # utf8Encode ds)
             else 0xEF # 0xBF # 0xBD # utf8Encode cs)
      else if 0xDC00 \<le> c \<and> c < 0xE000 then 0xEF # 0xBF # 0xBD # utf8Encode cs
      else of_nat (0xE0 + c div 4096) # of_nat (0x80 + (c div 64) mod 64)
             # of_nat (0x80 + c mod 64) # utf8Encode cs)"

definition zeroBlock :: "byte list" where
  "zeroBlock = [0, 0, 0, 0, 0, 0, 0, 0, 0, 0, 0, 0, 0, 0, 0, 0,
                0, 0, 0, 0, 0, 0, 0, 0, 0, 0, 0, 0, 0, 0, 0, 0]"

definition standInDigest :: "byte list \<Rightarrow> byte list" where
  "standInDigest message = take 32 (message @ zeroBlock)"

definition standInMac :: "byte list \<Rightarrow> byte list \<Rightarrow> byte list" where
  "standInMac key message = take 32 (key @ message @ zeroBlock)"

text \<open>\<open>JSON.stringify\<close>: \<open>QuoteJSONString\<close> for the strings, no indentation.\<close>

fun quoteChars :: "jsstring \<Rightarrow> jsstring" where
  "quoteChars [] = []"
| "quoteChars (c # cs) =
     (if c = 0x08 then 0x5C # 0x62 # quoteChars cs
      else if c = 0x09 then 0x5C # 0x74 # quoteChars cs
      else if c = 0x0A then 0x5C # 0x6E # quoteChars cs
      else if c = 0x0C then 0x5C # 0x66 # quoteChars cs
      else if c = 0x0D then 0x5C # 0x72 # quoteChars cs
      else if c = 0x22 then 0x5C # 0x22 # quoteChars cs
      else if c = 0x5C then 0x5C # 0x5C # quoteChars cs
      else if 0xD800 \<le> c \<and> c < 0xDC00 \<and> (case cs of d # ds \<Rightarrow> 0xDC00 \<le> d \<and> d < 0xE000 | [] \<Rightarrow> False)
        then c # hd cs # quoteChars (tl cs)
      else if c < 0x20 \<or> (0xD800 \<le> c \<and> c < 0xE000) then
        [0x5C, 0x75, digitChar (c div 4096), digitChar ((c div 256) mod 16),
         digitChar ((c div 16) mod 16), digitChar (c mod 16)] @ quoteChars cs
      else c # quoteChars cs)"

definition quoteJSONString :: "jsstring \<Rightarrow> jsstring" where
  "quoteJSONString s = 0x22 # quoteChars s @ [0x22]"

fun joinWith :: "nat \<Rightarrow> jsstring list \<Rightarrow> jsstring" where
  "joinWith sep [] = []"
| "joinWith sep [x] = x"
| "joinWith sep (x # y # zs) = x @ sep # joinWith sep (y # zs)"

fun stringifyJson :: "json \<Rightarrow> jsstring" where
  "stringifyJson JNull = js ''null''"
| "stringifyJson (JBool b) = (if b then js ''true'' else js ''false'')"
| "stringifyJson (JNumber text) = text"
| "stringifyJson (JString s) = quoteJSONString s"
| "stringifyJson (JArray items) = 0x5B # joinWith 0x2C (map stringifyJson items) @ [0x5D]"
| "stringifyJson (JObject members) =
     0x7B # joinWith 0x2C (map (\<lambda>(k, v). quoteJSONString k @ 0x3A # stringifyJson v) members) @ [0x7D]"

text \<open>
  \<open>JSON.parse\<close>: a recursive-descent parser of the JSON grammar. The fuel bounds the depth
  of the recursion; \<open>jsonParseText\<close> supplies more than any text can use.
\<close>

definition isJsonSpace :: "nat \<Rightarrow> bool" where
  "isJsonSpace c \<longleftrightarrow> c \<in> {0x20, 0x09, 0x0A, 0x0D}"

definition skipSpace :: "jsstring \<Rightarrow> jsstring" where
  "skipSpace s = dropWhile isJsonSpace s"

fun parseHex4 :: "jsstring \<Rightarrow> nat option" where
  "parseHex4 [a, b, c, d] =
     (case (hexDigitValue a, hexDigitValue b, hexDigitValue c, hexDigitValue d) of
        (Some w, Some x, Some y, Some z) \<Rightarrow> Some (w * 4096 + x * 256 + y * 16 + z)
      | _ \<Rightarrow> None)"
| "parseHex4 s = None"

definition unescapeChar :: "nat \<Rightarrow> nat option" where
  "unescapeChar e =
     (if e = 0x22 then Some 0x22
      else if e = 0x5C then Some 0x5C
      else if e = 0x2F then Some 0x2F
      else if e = 0x62 then Some 0x08
      else if e = 0x66 then Some 0x0C
      else if e = 0x6E then Some 0x0A
      else if e = 0x72 then Some 0x0D
      else if e = 0x74 then Some 0x09
      else None)"

text \<open>The characters of a string after its opening quote, and what follows the closing one.\<close>

fun parseStringTail :: "jsstring \<Rightarrow> (jsstring \<times> jsstring) option" where
  "parseStringTail [] = None"
| "parseStringTail (c # cs) =
     (if c = 0x22 then Some ([], cs)
      else if c < 0x20 then None
      else if c = 0x5C then
        (case cs of
           [] \<Rightarrow> None
         | e # rest \<Rightarrow>
             if e = 0x75 then
               (case parseHex4 (take 4 rest) of
                  None \<Rightarrow> None
                | Some u \<Rightarrow> map_option (\<lambda>(str, r). (u # str, r)) (parseStringTail (drop 4 rest)))
             else
               (case unescapeChar e of
                  None \<Rightarrow> None
                | Some u \<Rightarrow> map_option (\<lambda>(str, r). (u # str, r)) (parseStringTail rest)))
      else map_option (\<lambda>(str, r). (c # str, r)) (parseStringTail cs))"

definition isDigit :: "nat \<Rightarrow> bool" where
  "isDigit c \<longleftrightarrow> 0x30 \<le> c \<and> c \<le> 0x39"

text \<open>
  The longest prefix that is a JSON number; what it leaves unread of a malformed number
  is refused by the caller.
\<close>

definition parseNumber :: "jsstring \<Rightarrow> (jsstring \<times> jsstring) option" where
  "parseNumber s =
     (let minus = (case s of c # r \<Rightarrow> if c = 0x2D then [c] else [] | [] \<Rightarrow> []);
          s1 = drop (length minus) s;
          whole = (case s1 of c # r \<Rightarrow> if c = 0x30 then [c] else takeWhile isDigit s1 | [] \<Rightarrow> []);
          s2 = drop (length whole) s1;
          fraction = (case s2 of
                        c # r \<Rightarrow> if c = 0x2E \<and> takeWhile isDigit r \<noteq> [] then c # takeWhile isDigit r else []
                      | [] \<Rightarrow> []);
          s3 = drop (length fraction) s2;
          exponent = (case s3 of
                        c # r \<Rightarrow>
                          if c = 0x65 \<or> c = 0x45 then
                            (let sign = (case r of d # r' \<Rightarrow> if d = 0x2B \<or> d = 0x2D then [d] else [] | [] \<Rightarrow> []);
                                 digits = takeWhile isDigit (drop (length sign) r)
                             in if digits = [] then [] else c # sign @ digits)
                          else []
                      | [] \<Rightarrow> [])
      in if whole = [] then None
         else Some (minus @ whole @ fraction @ exponent, drop (length exponent) s3))"

fun parseValue :: "nat \<Rightarrow> jsstring \<Rightarrow> (json \<times> jsstring) option"
  and parseElements :: "nat \<Rightarrow> jsstring \<Rightarrow> (json list \<times> jsstring) option"
  and parseMembers :: "nat \<Rightarrow> jsstring \<Rightarrow> ((jsstring \<times> json) list \<times> jsstring) option" where
  "parseValue 0 s = None"
| "parseValue (Suc n) s =
     (case skipSpace s of
        [] \<Rightarrow> None
      | c # cs \<Rightarrow>
          if c = 0x22 then map_option (\<lambda>(str, r). (JString str, r)) (parseStringTail cs)
          else if c = 0x5B then
            (case skipSpace cs of
               [] \<Rightarrow> None
             | d # ds \<Rightarrow>
                 if d = 0x5D then Some (JArray [], ds)
                 else map_option (\<lambda>(items, r). (JArray items, r)) (parseElements n cs))
          else if c = 0x7B then
            (case skipSpace cs of
               [] \<Rightarrow> None
             | d # ds \<Rightarrow>
                 if d = 0x7D then Some (JObject [], ds)
                 else map_option (\<lambda>(members, r). (JObject members, r)) (parseMembers n cs))
          else if take 4 (c # cs) = js ''true'' then Some (JBool True, drop 3 cs)
          else if take 5 (c # cs) = js ''false'' then Some (JBool False, drop 4 cs)
          else if take 4 (c # cs) = js ''null'' then Some (JNull, drop 3 cs)
          else map_option (\<lambda>(text, r). (JNumber text, r)) (parseNumber (c # cs)))"
| "parseElements 0 s = None"
| "parseElements (Suc n) s =
     (case parseValue n s of
        None \<Rightarrow> None
      | Some (v, r) \<Rightarrow>
          (case skipSpace r of
             [] \<Rightarrow> None
           | c # cs \<Rightarrow>
               if c = 0x2C then map_option (\<lambda>(vs, r'). (v # vs, r')) (parseElements n cs)
               else if c = 0x5D then Some ([v], cs)
               else None))"
| "parseMembers 0 s = None"
| "parseMembers (Suc n) s =
     (case skipSpace s of
        [] \<Rightarrow> None
      | c # cs \<Rightarrow>
          if c \<noteq> 0x22 then None
          else
            (case parseStringTail cs of
               None \<Rightarrow> None
             | Some (key, r) \<Rightarrow>
                 (case skipSpace r of
                    [] \<Rightarrow> None
                  | d # ds \<Rightarrow>
                      if d \<noteq> 0x3A then None
                      else
                        (case parseValue n ds of
                           None \<Rightarrow> None
                         | Some (v, r') \<Rightarrow>
                             (case skipSpace r' of
                                [] \<Rightarrow> None
                              | e # es \<Rightarrow>
                                  if e = 0x2C then
                                    map_option (\<lambda>(ms, r''). ((key, v) # ms, r'')) (parseMembers n es)
                                  else if e = 0x7D then Some ([(key, v)], es)
                                  else None)))))"

definition jsonParseText :: "jsstring \<Rightarrow> json option" where
  "jsonParseText s =
     (case parseValue (Suc (Suc (2 * length s))) s of
        None \<Rightarrow> None
      | Some (v, r) \<Rightarrow> if skipSpace r = [] then Some v else None)"

text \<open>
  The \<open>protocol\<close> of \<open>new URL(s)\<close>, read off the scheme alone: a letter, then letters,
  digits, \<open>+\<close>, \<open>-\<close> and \<open>.\<close>, then a colon. The constructor refuses more (a special scheme
  with a malformed host); the inputs used below are none of those.
\<close>

definition isSchemeChar :: "nat \<Rightarrow> bool" where
  "isSchemeChar c \<longleftrightarrow>
     (0x41 \<le> c \<and> c \<le> 0x5A) \<or> (0x61 \<le> c \<and> c \<le> 0x7A) \<or> (0x30 \<le> c \<and> c \<le> 0x39)
     \<or> c = 0x2B \<or> c = 0x2D \<or> c = 0x2E"

definition asciiLower :: "jsstring \<Rightarrow> jsstring" where
  "asciiLower s = map (\<lambda>c. if 0x41 \<le> c \<and> c \<le> 0x5A then c + 0x20 else c) s"

definition schemeProtocol :: "jsstring \<Rightarrow> jsstring option" where
  "schemeProtocol s =
     (case s of
        [] \<Rightarrow> None
      | c # cs \<Rightarrow>
          if \<not> ((0x41 \<le> c \<and> c \<le> 0x5A) \<or> (0x61 \<le> c \<and> c \<le> 0x7A)) then None
          else (case dropWhile isSchemeChar cs of
                  [] \<Rightarrow> None
                | d # ds \<Rightarrow>
                    if d = 0x3A then Some (asciiLower (c # takeWhile isSchemeChar cs) @ [0x3A])
                    else None))"

definition runtime :: platform where
  "runtime =
     \<lparr>textEncode = utf8Encode,
      sha256 = standInDigest,
      hmacSha256 = standInMac,
      jsonParse = jsonParseText,
      jsonStringify = stringifyJson,
      urlProtocol = schemeProtocol,
      toLowerCase = asciiLower\<rparr>"

section \<open>Alphabets\<close>

text \<open>The digits \<open>toString(16)\<close> writes, and the characters a cookie value may hold unquoted.\<close>

definition isLowerHex :: "nat \<Rightarrow> bool" where
  "isLowerHex c \<longleftrightarrow> (0x30 \<le> c \<and> c \<le> 0x39) \<or> (0x61 \<le> c \<and> c \<le> 0x66)"

definition isBase64Text :: "nat \<Rightarrow> bool" where
  "isBase64Text c \<longleftrightarrow> c \<noteq> 0x3B \<and> c \<noteq> 0x2E \<and> \<not> isAsciiWhitespace c \<and> \<not> isWhiteSpace c"

section \<open>Examples\<close>

text \<open>The authorization request of the examples.\<close>

definition demoRequest :: json where
  "demoRequest =
     JObject [(js ''clientId'', JString (js ''demo-client'')), (js ''scope'', JString (js ''read''))]"

text \<open>The namespace after \<open>createOAuthState\<close> has stored that request under the token \<open>xyz\<close>.\<close>

definition demoStore :: kv where
  "demoStore = snd (createOAuthState runtime (js ''xyz'') demoRequest Map.empty)"


section \<open>Lemmas\<close>

subsection \<open>Strings and cookies\<close>

lemma length_js [simp]: "length (js s) = length s"
  by (simp add: js_def)

lemma splitOn_none: "sep \<notin> set s \<Longrightarrow> splitOn sep s = [s]"
  by (induction s) auto

lemma splitOn_two:
  "sep \<notin> set a \<Longrightarrow> sep \<notin> set b \<Longrightarrow> splitOn sep (a @ sep # b) = [a, b]"
  by (induction a) (auto simp: splitOn_none)

lemma trim_id:
  assumes "s \<noteq> []" "\<not> isWhiteSpace (hd s)" "\<not> isWhiteSpace (last s)"
  shows "trim s = s"
proof -
  have "dropWhile isWhiteSpace s = s"
    using assms by (simp add: dropWhile_eq_self_iff)
  moreover have "dropWhile isWhiteSpace (rev s) = rev s"
    using assms by (simp add: dropWhile_eq_self_iff hd_rev)
  ultimately show ?thesis by (simp add: trim_def)
qed

lemma cookieValue_single:
  assumes n: "name \<noteq> []" "\<not> isWhiteSpace (hd (js name))" "0x3B \<notin> set (js name)"
    and v: "0x3B \<notin> set v" "v \<noteq> [] \<Longrightarrow> \<not> isWhiteSpace (last v)"
  shows "cookieValue name (js name @ js ''='' @ v) = Some v"
proof -
  let ?h = "js name @ js ''='' @ v"
  have eq: "js ''='' = [0x3D]" by (simp add: js_def)
  have ne: "js name \<noteq> []" using n(1) by (simp add: js_def)
  have "0x3B \<notin> set ?h" using n(3) v(1) by (simp add: eq)
  then have sp: "splitOn 0x3B ?h = [?h]" by (rule splitOn_none)
  have hd: "hd ?h = hd (js name)" using ne by simp
  have last: "\<not> isWhiteSpace (last ?h)"
    using v(2) by (cases "v = []") (simp_all add: eq isWhiteSpace_def)
  have tr: "trim ?h = ?h"
    by (rule trim_id) (use ne hd n(2) last in simp_all)
  have st: "startsWith ?h (js name @ js ''='')"
    by (simp add: startsWith_def)
  show ?thesis
    unfolding cookieValue_def sp using tr st by (simp add: eq)
qed

lemma cookiePair_directive:
  "0x3B \<notin> set p \<Longrightarrow> cookiePair (p @ 0x3B # rest) = p"
  by (induction p) (auto simp: cookiePair_def)

subsection \<open>Hexadecimal text\<close>

lemma toString16_small: "n < 16 \<Longrightarrow> toString16 n = [digitChar n]"
  by (subst toString16.simps) simp

lemma toString16_byte:
  "16 \<le> n \<Longrightarrow> n < 256 \<Longrightarrow> toString16 n = [digitChar (n div 16), digitChar (n mod 16)]"
  by (subst toString16.simps) (simp add: toString16_small)

lemma hexByte_eq:
  "padStart 2 0x30 (toString16 (unat (b::byte))) = [digitChar (unat b div 16), digitChar (unat b mod 16)]"
proof -
  have lt: "unat b < 256" using unsigned_less [of b] by simp
  show ?thesis
  proof (cases "unat b < 16")
    case True
    then show ?thesis by (simp add: toString16_small padStart_def digitChar_def)
  next
    case False
    then show ?thesis using lt by (simp add: toString16_byte padStart_def)
  qed
qed

lemma hexOfBytes_Nil [simp]: "hexOfBytes [] = []"
  by (simp add: hexOfBytes_def)

lemma hexOfBytes_Cons:
  "hexOfBytes (b # bs) = digitChar (unat b div 16) # digitChar (unat b mod 16) # hexOfBytes bs"
  by (simp add: hexOfBytes_def hexByte_eq)

lemma digitChar_lower: "d < 16 \<Longrightarrow> isLowerHex (digitChar d)"
  by (auto simp: digitChar_def isLowerHex_def)

lemma hexOfBytes_lower: "list_all isLowerHex (hexOfBytes bs)"
proof (induction bs)
  case Nil
  show ?case by simp
next
  case (Cons b bs)
  have "unat b < 256" using unsigned_less [of b] by simp
  then have "unat b div 16 < 16" by simp
  then show ?case using Cons by (simp add: hexOfBytes_Cons digitChar_lower)
qed


lemma hexOfBytes_eq_Nil: "hexOfBytes bs = [] \<longleftrightarrow> bs = []"
  by (cases bs) (simp_all add: hexOfBytes_Cons)

lemma lowerHex_plain:
  assumes "isLowerHex c"
  shows "c \<noteq> 0x3B" "c \<noteq> 0x2E" "\<not> isWhiteSpace c" "\<not> isLineTerminator c"
  using assms by (auto simp: isLowerHex_def isWhiteSpace_def isLineTerminator_def)

lemma lowerHex_set:
  assumes "list_all isLowerHex s"
  shows "0x3B \<notin> set s" "0x2E \<notin> set s" "s \<noteq> [] \<Longrightarrow> \<not> isWhiteSpace (last s)"
  using assms lowerHex_plain by (auto simp: list_all_iff)

lemma hexDigitValue_digitChar: "d < 16 \<Longrightarrow> hexDigitValue (digitChar d) = Some d"
  by (auto simp: hexDigitValue_def digitChar_def)

lemma parseInt16_pair:
  assumes "h < 16" "l < 16"
  shows "parseInt16 [digitChar h, digitChar l] = Some (int (16 * h + l))"
proof -
  have ws: "\<not> isWhiteSpace (digitChar h)"
    using assms by (intro lowerHex_plain digitChar_lower)
  have ne: "digitChar h \<noteq> 0x2D" "digitChar h \<noteq> 0x2B" "digitChar l \<noteq> 0x78" "digitChar l \<noteq> 0x58"
    using assms by (auto simp: digitChar_def)
  show ?thesis
    using assms ws ne by (simp add: parseInt16_def js_def hexDigitValue_digitChar)
qed

lemma toUint8_byte: "toUint8 (Some (int (16 * (unat (b::byte) div 16) + unat b mod 16))) = b"
  by (simp add: toUint8_def)

lemma matchPairs_hex:
  "matchPairs (hexOfBytes bs) = map (\<lambda>b. [digitChar (unat b div 16), digitChar (unat b mod 16)]) bs"
proof (induction bs)
  case Nil
  show ?case by simp
next
  case (Cons b bs)
  have "unat b < 256" using unsigned_less [of b] by simp
  then have "unat b div 16 < 16" by simp
  then have "\<not> isLineTerminator (digitChar (unat b div 16))" "\<not> isLineTerminator (digitChar (unat b mod 16))"
    by (auto intro!: lowerHex_plain digitChar_lower)
  then show ?case using Cons by (simp add: hexOfBytes_Cons)
qed

lemma signature_bytes_roundtrip:
  "map (\<lambda>byte. toUint8 (parseInt16 byte)) (matchPairs (hexOfBytes bs)) = bs"
proof -
  have "toUint8 (parseInt16 [digitChar (unat b div 16), digitChar (unat b mod 16)]) = b" for b :: byte
  proof -
    have "unat b < 256" using unsigned_less [of b] by simp
    then have "unat b div 16 < 16" by simp
    then show ?thesis by (simp add: parseInt16_pair toUint8_def)
  qed
  then show ?thesis by (simp add: matchPairs_hex map_idI comp_def)
qed

lemma matchPairs_hex_Nil: "matchPairs (hexOfBytes bs) = [] \<longleftrightarrow> bs = []"
  by (simp add: matchPairs_hex)

subsection \<open>Sets of client ids\<close>






lemma foldl_insert_distinct_id:
  "distinct (acc @ xs) \<Longrightarrow> foldl (\<lambda>acc x. if x \<in> set acc then acc else acc @ [x]) acc xs = acc @ xs"
  by (induction xs arbitrary: acc) auto

lemma setToArray_distinct_id: "distinct xs \<Longrightarrow> setToArray xs = xs"
  using foldl_insert_distinct_id [of "[]" xs] by (simp add: setToArray_def)

subsection \<open>Base64\<close>

lemma decode6_encode6: "n < 64 \<Longrightarrow> decode6 (encode6 n) = Some n"
  by (auto simp: decode6_def encode6_def)

lemma encode6_plain:
  "encode6 n \<noteq> 0x3D" "encode6 n \<noteq> 0x3B" "encode6 n \<noteq> 0x2E"
  "\<not> isAsciiWhitespace (encode6 n)" "\<not> isWhiteSpace (encode6 n)"
  by (auto simp: encode6_def isAsciiWhitespace_def isWhiteSpace_def)

lemma base64Encode_text: "list_all isBase64Text (base64Encode s)"
  by (induction s rule: base64Encode.induct)
     (simp_all add: isBase64Text_def encode6_plain, simp_all add: isAsciiWhitespace_def isWhiteSpace_def)

lemma base64Text_set:
  assumes "list_all isBase64Text s"
  shows "0x3B \<notin> set s" "0x2E \<notin> set s" "s \<noteq> [] \<Longrightarrow> \<not> isWhiteSpace (last s)"
    "filter (\<lambda>c. \<not> isAsciiWhitespace c) s = s"
  using assms by (auto simp: list_all_iff isBase64Text_def filter_id_conv)

lemma length_base64Encode: "length (base64Encode s) mod 4 = 0"
  by (induction s rule: base64Encode.induct) simp_all

lemma stripPadding_group:
  assumes "z \<noteq> 0x3D" "ys = [] \<or> 2 \<le> length ys"
  shows "stripPadding ([w, x, y, z] @ ys) = [w, x, y, z] @ stripPadding ys"
proof (cases "rev ys")
  case Nil
  then show ?thesis using assms by (simp add: stripPadding_def)
next
  case (Cons u us)
  then obtain v vs where us: "us = v # vs"
    using assms(2) by (cases us) (auto dest: arg_cong [where f = length])
  have ys: "ys = rev vs @ [v, u]"
    using Cons us by (metis append.assoc append_Cons append_Nil rev.simps(2) rev_rev_ident)
  show ?thesis unfolding ys by (simp add: stripPadding_def)
qed

lemma base64Encode_length_cases: "base64Encode s = [] \<or> 2 \<le> length (base64Encode s)"
  by (cases s rule: base64Encode.cases) simp_all

lemma sextet_bounds:
  fixes a b c :: nat
  assumes "a < 256" "b < 256" "c < 256"
  shows "a div 4 < 64" "a mod 4 * 16 + b div 16 < 64" "b mod 16 * 4 + c div 64 < 64" "c mod 64 < 64"
    "a mod 4 * 16 < 64" "b mod 16 * 4 < 64"
  using assms by auto

lemma sextet_join:
  fixes a b c :: nat
  assumes "a < 256" "b < 256" "c < 256"
  shows "a div 4 * 4 + (a mod 4 * 16 + b div 16) div 16 = a"
    "(a mod 4 * 16 + b div 16) mod 16 * 16 + (b mod 16 * 4 + c div 64) div 4 = b"
    "(b mod 16 * 4 + c div 64) mod 4 * 64 + c mod 64 = c"
    "a div 4 * 4 + (a mod 4 * 16) div 16 = a"
    "(a mod 4 * 16 + b div 16) mod 16 * 16 + (b mod 16 * 4) div 4 = b"
  using assms by simp_all

lemma base64_decode_encode:
  assumes "list_all (\<lambda>c. c < 256) s"
  shows "length (stripPadding (base64Encode s)) mod 4 \<noteq> 1 \<and>
         (\<exists>sx. those (map decode6 (stripPadding (base64Encode s))) = Some sx \<and> base64Decode sx = s)"
  using assms
proof (induction s rule: base64Encode.induct)
  case (1 a b c rest)
  then have abc: "a < 256" "b < 256" "c < 256" and rest: "list_all (\<lambda>c. c < 256) rest"
    by simp_all
  from "1.IH" [OF rest] obtain sx where
    len: "length (stripPadding (base64Encode rest)) mod 4 \<noteq> 1" and
    sx: "those (map decode6 (stripPadding (base64Encode rest))) = Some sx" "base64Decode sx = rest"
    by blast
  let ?g = "[encode6 (a div 4), encode6 (a mod 4 * 16 + b div 16),
             encode6 (b mod 16 * 4 + c div 64), encode6 (c mod 64)]"
  have sp: "stripPadding (base64Encode (a # b # c # rest)) = ?g @ stripPadding (base64Encode rest)"
    using stripPadding_group [OF encode6_plain(1) base64Encode_length_cases] by simp
  have th: "those (map decode6 (?g @ stripPadding (base64Encode rest)))
            = Some ([a div 4, a mod 4 * 16 + b div 16, b mod 16 * 4 + c div 64, c mod 64] @ sx)"
    using sx(1) sextet_bounds(1-4) [OF abc] by (simp add: decode6_encode6)
  have de: "base64Decode ([a div 4, a mod 4 * 16 + b div 16, b mod 16 * 4 + c div 64, c mod 64] @ sx)
            = a # b # c # rest"
    using sx(2) sextet_join(1-3) [OF abc] by simp
  have "length (?g @ stripPadding (base64Encode rest)) mod 4 \<noteq> 1"
    using len by simp
  then show ?case unfolding sp using th de by blast
next
  case (2 a b)
  then have ab: "a < 256" "b < 256" by simp_all
  have sp: "stripPadding (base64Encode [a, b])
            = [encode6 (a div 4), encode6 (a mod 4 * 16 + b div 16), encode6 (b mod 16 * 4)]"
    using encode6_plain(1) by (simp add: stripPadding_def)
  show ?case unfolding sp
    using sextet_bounds(1,2,6) [OF ab ab(1)] sextet_join(1,5) [OF ab ab(1)] by (simp add: decode6_encode6)
next
  case (3 a)
  then have a: "a < 256" by simp
  have sp: "stripPadding (base64Encode [a]) = [encode6 (a div 4), encode6 (a mod 4 * 16)]"
    by (simp add: stripPadding_def)
  show ?case unfolding sp
    using sextet_bounds(1,5) [OF a a a] sextet_join(4) [OF a a a] by (simp add: decode6_encode6)
next
  case 4
  show ?case by (simp add: stripPadding_def)
qed

lemma atob_base64Encode:
  assumes "list_all (\<lambda>c. c < 256) s"
  shows "atob (base64Encode s) = Inr s"
proof -
  from base64_decode_encode [OF assms] obtain sx where
    len: "length (stripPadding (base64Encode s)) mod 4 \<noteq> 1" and
    sx: "those (map decode6 (stripPadding (base64Encode s))) = Some sx" "base64Decode sx = s"
    by blast
  have f: "filter (\<lambda>c. \<not> isAsciiWhitespace c) (base64Encode s) = base64Encode s"
    by (rule base64Text_set(4) [OF base64Encode_text])
  show ?thesis
    using len sx by (simp add: atob_def f length_base64Encode)
qed

lemma btoa_Inr: "btoa s = Inr e \<longleftrightarrow> list_all (\<lambda>c. c < 256) s \<and> e = base64Encode s"
proof -
  have "(\<not> list_ex (\<lambda>c. 0xFF < c) s) = list_all (\<lambda>c. c < 256) s"
    by (induction s) auto
  then show ?thesis by (auto simp: btoa_def)
qed

lemma atob_btoa: "btoa s = Inr e \<Longrightarrow> atob e = Inr s"
  by (simp add: btoa_Inr atob_base64Encode)

subsection \<open>The three cookie names\<close>

lemma cookie_names:
  "''__Host-CSRF_TOKEN'' \<noteq> []" "\<not> isWhiteSpace (hd (js ''__Host-CSRF_TOKEN''))" "0x3B \<notin> set (js ''__Host-CSRF_TOKEN'')"
  "''__Host-CONSENTED_STATE'' \<noteq> []" "\<not> isWhiteSpace (hd (js ''__Host-CONSENTED_STATE''))" "0x3B \<notin> set (js ''__Host-CONSENTED_STATE'')"
  "''__Host-APPROVED_CLIENTS'' \<noteq> []" "\<not> isWhiteSpace (hd (js ''__Host-APPROVED_CLIENTS''))" "0x3B \<notin> set (js ''__Host-APPROVED_CLIENTS'')"
  by (simp_all add: js_def isWhiteSpace_def)

lemma js_semicolon_Cons: "js (CHR '';'' # s) = 0x3B # js s"
  by (simp add: js_def)

subsection \<open>State validation\<close>

lemma stateHashHex_lower: "list_all isLowerHex (stateHashHex pf t)"
  by (simp add: stateHashHex_def hexOfBytes_lower)

lemma stateHashHex_Nil: "stateHashHex pf t = [] \<longleftrightarrow> sha256 pf (textEncode pf t) = []"
  by (simp add: stateHashHex_def hexOfBytes_eq_Nil)

lemma cookiePair_bind:
  "cookiePair (bindStateToSession pf t) = js ''__Host-CONSENTED_STATE'' @ js ''='' @ stateHashHex pf t"
proof -
  let ?p = "js ''__Host-CONSENTED_STATE'' @ js ''='' @ stateHashHex pf t"
  have "0x3B \<notin> set ?p"
    using lowerHex_set(1) [OF stateHashHex_lower, of pf t] by (simp add: js_def)
  then have "cookiePair (?p @ 0x3B # js '' HttpOnly; Secure; Path=/; SameSite=Lax; Max-Age=600'') = ?p"
    by (rule cookiePair_directive)
  then show ?thesis by (simp add: bindStateToSession_def js_def)
qed

lemma boundCallback_cookie:
  "cookieValue ''__Host-CONSENTED_STATE'' (cookieHeaderOrEmpty (boundCallback pf t)) = Some (stateHashHex pf t)"
proof -
  have "cookieValue ''__Host-CONSENTED_STATE'' (js ''__Host-CONSENTED_STATE'' @ js ''='' @ stateHashHex pf t)
        = Some (stateHashHex pf t)"
    using lowerHex_set [OF stateHashHex_lower, of pf t]
    by (intro cookieValue_single cookie_names) simp_all
  then show ?thesis
    by (simp add: boundCallback_def requestWith_def cookieHeaderOrEmpty_def cookiePair_bind)
qed

lemma boundCallback_state: "stateParam (boundCallback pf t) = Some t"
  by (simp add: boundCallback_def requestWith_def stateParam_def)

lemma validate_failure_keeps_store:
  "fst (validateOAuthState pf req store) = Inl e \<Longrightarrow> snd (validateOAuthState pf req store) = store"
  by (auto simp: validateOAuthState_def split: option.splits if_splits)



lemma validate_bound:
  assumes "stateParam req = Some t" "t \<noteq> []" "store (stateKey t) = Some stored" "stored \<noteq> []"
    and "cookieValue ''__Host-CONSENTED_STATE'' (cookieHeaderOrEmpty req) = Some (stateHashHex pf t)"
    and "sha256 pf (textEncode pf t) \<noteq> []"
  shows "validateOAuthState pf req store =
           (case jsonParse pf stored of
              None \<Rightarrow> (Inl corruptState, store)
            | Some info \<Rightarrow> (Inr \<lparr>oauthReqInfo = info, clearCookie = stateClearCookie\<rparr>,
                            store(stateKey t := None)))"
  using assms by (simp add: validateOAuthState_def stateHashHex_Nil split: option.splits)





subsection \<open>Approval cookies\<close>

lemma verifySignature_eq:
  "secret \<noteq> [] \<Longrightarrow>
   verifySignature pf sig payload secret =
     Inr (matchPairs sig \<noteq> [] \<and>
          signatureBytes sig = hmacSha256 pf (textEncode pf secret) (textEncode pf payload))"
  by (simp add: verifySignature_def importKey_def signatureBytes_def split: list.splits)

lemma signData_eq:
  "secret \<noteq> [] \<Longrightarrow>
   signData pf payload secret = Inr (hexOfBytes (hmacSha256 pf (textEncode pf secret) (textEncode pf payload)))"
  by (simp add: signData_def importKey_def)

lemma getApproved_no_header:
  "cookieHeader req = None \<Longrightarrow> getApprovedClientsFromCookie pf req secret = Inr None"
  by (simp add: getApprovedClientsFromCookie_def)

lemma getApproved_no_cookie:
  "cookieHeader req = Some h \<Longrightarrow> cookieValue ''__Host-APPROVED_CLIENTS'' h = None \<Longrightarrow>
   getApprovedClientsFromCookie pf req secret = Inr None"
  by (simp add: getApprovedClientsFromCookie_def)

lemma cookieValue_empty_header: "cookieValue name [] = None"
  by (simp add: cookieValue_def trim_def startsWith_def js_def)

lemma getApproved_parts:
  assumes "cookieHeader req = Some h" "cookieValue ''__Host-APPROVED_CLIENTS'' h = Some v"
    and "length (splitOn 0x2E v) \<noteq> 2"
  shows "getApprovedClientsFromCookie pf req secret = Inr None"
proof -
  have "h \<noteq> []" using assms(2) by (auto simp: cookieValue_empty_header)
  then show ?thesis
    using assms by (auto simp: getApprovedClientsFromCookie_def split: list.splits)
qed

lemma getApproved_two_parts:
  assumes "cookieHeader req = Some h" "cookieValue ''__Host-APPROVED_CLIENTS'' h = Some v"
    and "splitOn 0x2E v = [sig, b64]" "secret \<noteq> []"
  shows "getApprovedClientsFromCookie pf req secret =
           (case atob b64 of
              Inl e \<Rightarrow> Inl e
            | Inr payload \<Rightarrow>
                if matchPairs sig \<noteq> [] \<and>
                   signatureBytes sig = hmacSha256 pf (textEncode pf secret) (textEncode pf payload)
                then (case jsonParse pf payload of None \<Rightarrow> Inr None | Some a \<Rightarrow> Inr (asStringArray a))
                else Inr None)"
proof -
  have "h \<noteq> []" using assms(2) by (auto simp: cookieValue_empty_header)
  then show ?thesis
    using assms by (simp add: getApprovedClientsFromCookie_def verifySignature_eq split: sum.splits)
qed





subsection \<open>Running the utilities\<close>

lemma hasControlChar_iff: "hasControlChar s \<longleftrightarrow> (\<exists>c\<in>set s. isControl c)"
  by (induction s) (auto simp: isControl_def)

lemma isClientApproved_eq:
  "isClientApproved pf req clientId secret =
     (case getApprovedClientsFromCookie pf req secret of
        Inl e \<Rightarrow> Inl e
      | Inr found \<Rightarrow> Inr (case found of None \<Rightarrow> False | Some cs \<Rightarrow> clientId \<in> set cs))"
  by (simp add: isClientApproved_def split: sum.splits option.splits)


lemma runtime_fields:
  "textEncode runtime = utf8Encode" "sha256 runtime = standInDigest" "hmacSha256 runtime = standInMac"
  "jsonParse runtime = jsonParseText" "jsonStringify runtime = stringifyJson"
  "urlProtocol runtime = schemeProtocol" "toLowerCase runtime = asciiLower"
  by (simp_all add: runtime_def)

lemmas parse_numeral_fuel =
  parseValue.simps(2)[where n = "pred_numeral k" for k, folded numeral_eq_Suc]
  parseElements.simps(2)[where n = "pred_numeral k" for k, folded numeral_eq_Suc]
  parseMembers.simps(2)[where n = "pred_numeral k" for k, folded numeral_eq_Suc]

lemmas parse_eval = jsonParseText_def skipSpace_def isJsonSpace_def js_def parse_numeral_fuel
  unescapeChar_def parseNumber_def isDigit_def quoteJSONString_def

lemma demo_roundtrip: "jsonParseText (stringifyJson demoRequest) = Some demoRequest"
  by (simp add: demoRequest_def parse_eval)

lemma demo_text: "stringifyJson demoRequest \<noteq> []"
  by (simp add: demoRequest_def)

lemma not_json: "jsonParseText (js ''{not json'') = None"
  by (simp add: parse_eval)


lemma demoStore_key: "demoStore (stateKey (js ''xyz'')) = Some (stringifyJson demoRequest)"
  by (simp add: demoStore_def createOAuthState_def runtime_fields Let_def)

lemma xyz_nonempty: "js ''xyz'' \<noteq> []"
  by (simp add: js_def)

lemma digest_nonempty: "standInDigest m \<noteq> []"
  by (simp add: standInDigest_def zeroBlock_def)

lemma mac_nonempty: "standInMac k m \<noteq> []"
  by (simp add: standInMac_def zeroBlock_def)

lemma mac_length: "length (standInMac k m) = 32"
  by (simp add: standInMac_def zeroBlock_def)


lemma plain_state: "stateParam (requestWith [(js ''state'', t)] cookies) = Some t"
  by (simp add: stateParam_def requestWith_def)

lemma approved_names:
  "js ''client-A'' \<noteq> []" "js ''secret-1'' \<noteq> []" "js ''secret-2'' \<noteq> []"
  by (simp_all add: js_def)






lemma mac_A:
  "hexOfBytes (standInMac (utf8Encode (js ''secret-1'')) (utf8Encode (0x5B # 0x22 # js ''client-A'' @ [0x22, 0x5D])))
     = js ''7365637265742d315b22636c69656e742d41225d000000000000000000000000''"
  by (simp add: standInMac_def zeroBlock_def js_def hexOfBytes_Cons digitChar_def)




lemma zero_cookie:
  "cookieValue ''__Host-APPROVED_CLIENTS'' (js ''__Host-APPROVED_CLIENTS=00.W10='') = Some (js ''00.W10='')"
  "splitOn 0x2E (js ''00.W10='') = [js ''00'', js ''W10='']"
  "atob (js ''W10='') = Inr (js ''[]'')"
  "js ''__Host-APPROVED_CLIENTS=00.W10='' \<noteq> []"
  by (simp_all add: cookieValue_def js_def trim_def isWhiteSpace_def startsWith_def atob_def
      isAsciiWhitespace_def stripPadding_def decode6_def)

lemma bad_cookie:
  "cookieValue ''__Host-APPROVED_CLIENTS'' (js ''__Host-APPROVED_CLIENTS=00.%%%'') = Some (js ''00.%%%'')"
  "splitOn 0x2E (js ''00.%%%'') = [js ''00'', js ''%%%'']"
  "atob (js ''%%%'') = Inl InvalidCharacterError"
  "js ''__Host-APPROVED_CLIENTS=00.%%%'' \<noteq> []"
  by (simp_all add: cookieValue_def js_def trim_def isWhiteSpace_def startsWith_def atob_def
      isAsciiWhitespace_def stripPadding_def decode6_def)

lemma zero_signature: "signatureBytes (js ''00'') = [0]" "matchPairs (js ''00'') \<noteq> []"
  by (simp_all add: signatureBytes_def js_def isLineTerminator_def parseInt16_def isWhiteSpace_def
      hexDigitValue_def toUint8_def)

lemma payload_evil:
  "list_all (\<lambda>c. c < 256) (0x5B # 0x22 # js ''client-A'' @ 0x22 # 0x2C # 0x22 # js ''evil'' @ [0x22, 0x5D])"
  "standInMac (utf8Encode (js ''secret-1'')) (utf8Encode (0x5B # 0x22 # js ''client-A'' @ [0x22, 0x5D]))
   \<noteq> standInMac (utf8Encode (js ''secret-1''))
        (utf8Encode (0x5B # 0x22 # js ''client-A'' @ 0x22 # 0x2C # 0x22 # js ''evil'' @ [0x22, 0x5D]))"
  by (simp_all add: js_def standInMac_def zeroBlock_def)

section \<open>The claims\<close>



text \<open>
  Claim C2, as amended. \<open>validateCSRFToken\<close> succeeds if and only if the \<open>csrf_token\<close> form field
  is a non-empty string and the \<open>__Host-CSRF_TOKEN\<close> cookie value is the same string; two
  different non-empty values raise the mismatch error; a form field that is absent, a file or
  empty raises the missing-form-token error, and with a non-empty form token an absent or empty
  cookie raises the missing-cookie error.
\<close>

theorem csrf_token_validation:
  "(validateCSRFToken form req = Inr csrfClearCookie \<longleftrightarrow>
      (\<exists>t. t \<noteq> [] \<and> map_of form (js ''csrf_token'') = Some (FormString t)
           \<and> cookieValue ''__Host-CSRF_TOKEN'' (cookieHeaderOrEmpty req) = Some t))
   \<and> (\<forall>r. validateCSRFToken form req = Inr r \<longrightarrow> r = csrfClearCookie)
   \<and> (\<forall>t c. map_of form (js ''csrf_token'') = Some (FormString t) \<and> t \<noteq> []
           \<and> cookieValue ''__Host-CSRF_TOKEN'' (cookieHeaderOrEmpty req) = Some c \<and> c \<noteq> []
           \<and> t \<noteq> c
         \<longrightarrow> validateCSRFToken form req = Inl csrfMismatch)
   \<and> (map_of form (js ''csrf_token'') \<in> {None, Some FormFile, Some (FormString [])}
         \<longrightarrow> validateCSRFToken form req = Inl missingCSRFForm)
   \<and> (\<forall>t. map_of form (js ''csrf_token'') = Some (FormString t) \<and> t \<noteq> []
           \<and> cookieValue ''__Host-CSRF_TOKEN'' (cookieHeaderOrEmpty req) \<in> {None, Some []}
         \<longrightarrow> validateCSRFToken form req = Inl missingCSRFCookie)"
  by (auto simp: validateCSRFToken_def split: option.splits formEntry.splits if_splits)

text \<open>
  Equal tokens, tokens that differ in case, a missing form field and a missing cookie.
\<close>

theorem csrf_token_validation_witness:
  "validateCSRFToken [(js ''csrf_token'', FormString (js ''abc''))]
      (requestWith [] (Some (js ''other=1; __Host-CSRF_TOKEN=abc''))) = Inr csrfClearCookie
   \<and> validateCSRFToken [(js ''csrf_token'', FormString (js ''abc''))]
      (requestWith [] (Some (js ''__Host-CSRF_TOKEN=abC''))) = Inl csrfMismatch
   \<and> validateCSRFToken [] (requestWith [] (Some (js ''__Host-CSRF_TOKEN=abc''))) = Inl missingCSRFForm
   \<and> validateCSRFToken [(js ''csrf_token'', FormString (js ''abc''))] (requestWith [] None)
       = Inl missingCSRFCookie"
proof -
  have c1: "cookieValue ''__Host-CSRF_TOKEN''
              (cookieHeaderOrEmpty (requestWith [] (Some (js ''other=1; __Host-CSRF_TOKEN=abc''))))
            = Some (js ''abc'')"
    by (simp add: cookieValue_def cookieHeaderOrEmpty_def requestWith_def js_def trim_def
        isWhiteSpace_def startsWith_def)
  have c2: "cookieValue ''__Host-CSRF_TOKEN''
              (cookieHeaderOrEmpty (requestWith [] (Some (js ''__Host-CSRF_TOKEN=abC''))))
            = Some (js ''abC'')"
    by (simp add: cookieValue_def cookieHeaderOrEmpty_def requestWith_def js_def trim_def
        isWhiteSpace_def startsWith_def)
  have c3: "cookieValue ''__Host-CSRF_TOKEN'' (cookieHeaderOrEmpty (requestWith [] None)) = None"
    by (simp add: cookieHeaderOrEmpty_def requestWith_def cookieValue_empty_header)
  have f: "map_of [(js ''csrf_token'', FormString (js ''abc''))] (js ''csrf_token'')
             = Some (FormString (js ''abc''))"
    by simp
  have e: "map_of ([] :: formData) (js ''csrf_token'') = None"
    by simp
  have ne: "js ''abc'' \<noteq> []" "js ''abC'' \<noteq> []" "js ''abc'' \<noteq> js ''abC''"
    by (simp_all add: js_def)
  have 1: "validateCSRFToken [(js ''csrf_token'', FormString (js ''abc''))]
      (requestWith [] (Some (js ''other=1; __Host-CSRF_TOKEN=abc''))) = Inr csrfClearCookie"
    using csrf_token_validation [of "[(js ''csrf_token'', FormString (js ''abc''))]"
            "requestWith [] (Some (js ''other=1; __Host-CSRF_TOKEN=abc''))"] c1 f ne(1)
    by blast
  have 2: "validateCSRFToken [(js ''csrf_token'', FormString (js ''abc''))]
      (requestWith [] (Some (js ''__Host-CSRF_TOKEN=abC''))) = Inl csrfMismatch"
    using csrf_token_validation [of "[(js ''csrf_token'', FormString (js ''abc''))]"
            "requestWith [] (Some (js ''__Host-CSRF_TOKEN=abC''))"] c2 f ne
    by blast
  have 3: "validateCSRFToken [] (requestWith [] (Some (js ''__Host-CSRF_TOKEN=abc''))) = Inl missingCSRFForm"
    using csrf_token_validation [of "[]" "requestWith [] (Some (js ''__Host-CSRF_TOKEN=abc''))"] e
    by blast
  have 4: "validateCSRFToken [(js ''csrf_token'', FormString (js ''abc''))] (requestWith [] None)
       = Inl missingCSRFCookie"
    using csrf_token_validation [of "[(js ''csrf_token'', FormString (js ''abc''))]"
            "requestWith [] None"] c3 f ne(1)
    by blast
  show ?thesis using 1 2 3 4 by blast
qed

text \<open>
  Claim C2 as stated fails: the form field and the cookie value are both the empty string,
  byte for byte identical, and validation raises the missing-token error.
\<close>

theorem csrf_identical_empty_tokens_counterexample:
  "map_of [(js ''csrf_token'', FormString [])] (js ''csrf_token'') = Some (FormString [])
   \<and> cookieValue ''__Host-CSRF_TOKEN''
        (cookieHeaderOrEmpty (requestWith [] (Some (js ''__Host-CSRF_TOKEN='')))) = Some []
   \<and> validateCSRFToken [(js ''csrf_token'', FormString [])]
        (requestWith [] (Some (js ''__Host-CSRF_TOKEN=''))) = Inl missingCSRFForm"
  by (simp add: validateCSRFToken_def cookieValue_def cookieHeaderOrEmpty_def requestWith_def js_def
      trim_def isWhiteSpace_def startsWith_def)



text \<open>
  Claim C4. When \<open>validateOAuthState\<close> fails because the binding cookie is missing or does not
  match, the namespace is left as it was, the record of the token is still there, and the
  callback of the browser that holds the binding cookie then succeeds (when the stored text
  parses and the digest is non-empty).
\<close>

theorem binding_failure_keeps_state:
  assumes "stateParam req = Some t"
    and "fst (validateOAuthState pf req store) \<in> {Inl missingSessionBinding, Inl sessionBindingMismatch}"
  shows "snd (validateOAuthState pf req store) = store
       \<and> (\<exists>stored. store (stateKey t) = Some stored \<and> stored \<noteq> []
            \<and> snd (validateOAuthState pf req store) (stateKey t) = Some stored
            \<and> (\<forall>info. jsonParse pf stored = Some info \<and> sha256 pf (textEncode pf t) \<noteq> []
                 \<longrightarrow> validateOAuthState pf (boundCallback pf t) (snd (validateOAuthState pf req store))
                       = (Inr \<lparr>oauthReqInfo = info, clearCookie = stateClearCookie\<rparr>,
                          store(stateKey t := None))))"
proof -
  from assms(2) obtain e where e: "fst (validateOAuthState pf req store) = Inl e"
    by auto
  then have same: "snd (validateOAuthState pf req store) = store"
    by (rule validate_failure_keeps_store)
  from assms obtain stored where st: "store (stateKey t) = Some stored" "stored \<noteq> []" "t \<noteq> []"
    by (auto simp: validateOAuthState_def split: option.splits if_splits)
  have "validateOAuthState pf (boundCallback pf t) store
          = (Inr \<lparr>oauthReqInfo = info, clearCookie = stateClearCookie\<rparr>, store(stateKey t := None))"
    if "jsonParse pf stored = Some info" "sha256 pf (textEncode pf t) \<noteq> []" for info
    using validate_bound [where store = store and pf = pf and req = "boundCallback pf t" and t = t,
        OF boundCallback_state st(3) st(1,2) boundCallback_cookie that(2)] that(1)
    by simp
  then show ?thesis using same st by auto
qed

text \<open>
  A callback without cookies for \<open>xyz\<close> fails and leaves the store alone; the bound browser
  then gets the demo request back.
\<close>

theorem binding_failure_keeps_state_witness:
  "snd (validateOAuthState runtime (requestWith [(js ''state'', js ''xyz'')] None) demoStore) = demoStore
   \<and> validateOAuthState runtime (boundCallback runtime (js ''xyz''))
        (snd (validateOAuthState runtime (requestWith [(js ''state'', js ''xyz'')] None) demoStore))
       = (Inr \<lparr>oauthReqInfo = demoRequest, clearCookie = stateClearCookie\<rparr>,
          demoStore(stateKey (js ''xyz'') := None))"
proof -
  let ?r = "requestWith [(js ''state'', js ''xyz'')] None"
  have c: "cookieValue ''__Host-CONSENTED_STATE'' (cookieHeaderOrEmpty ?r) = None"
    by (simp add: cookieHeaderOrEmpty_def requestWith_def cookieValue_empty_header)
  have f: "fst (validateOAuthState runtime ?r demoStore)
             \<in> {Inl missingSessionBinding, Inl sessionBindingMismatch}"
    using c by (simp add: validateOAuthState_def plain_state xyz_nonempty demoStore_key demo_text)
  have d: "sha256 runtime (textEncode runtime (js ''xyz'')) \<noteq> []"
    by (simp add: runtime_fields digest_nonempty)
  have p: "jsonParse runtime (stringifyJson demoRequest) = Some demoRequest"
    by (simp add: runtime_fields demo_roundtrip)
  from binding_failure_keeps_state [where store = demoStore and req = ?r, OF plain_state f]
  obtain stored where s: "snd (validateOAuthState runtime ?r demoStore) = demoStore"
    "demoStore (stateKey (js ''xyz'')) = Some stored"
    "\<forall>info. jsonParse runtime stored = Some info \<and> sha256 runtime (textEncode runtime (js ''xyz'')) \<noteq> []
        \<longrightarrow> validateOAuthState runtime (boundCallback runtime (js ''xyz''))
              (snd (validateOAuthState runtime ?r demoStore))
            = (Inr \<lparr>oauthReqInfo = info, clearCookie = stateClearCookie\<rparr>,
               demoStore(stateKey (js ''xyz'') := None))"
    by blast
  have "stored = stringifyJson demoRequest" using s(2) demoStore_key by simp
  then show ?thesis using s(1,3) p d by blast
qed

text \<open>
  Claim C5, as amended. With a non-empty secret, \<open>isClientApproved\<close> returns false, and raises
  nothing, when the \<open>Cookie\<close> header or the \<open>__Host-APPROVED_CLIENTS\<close> cookie is absent, when the
  cookie value does not have two parts, and, for a payload that base64-decodes, when the
  signature has no bytes or its bytes are not the HMAC of the decoded payload under the
  secret, or the payload is not the JSON text of an array of strings. So a cookie whose
  payload was exchanged and whose signature is not the HMAC of the new payload approves no
  client id.
\<close>

theorem isClientApproved_fails_closed:
  assumes "secret \<noteq> []"
  shows "(cookieHeader req = None \<longrightarrow> isClientApproved pf req clientId secret = Inr False)
       \<and> (\<forall>h. cookieHeader req = Some h \<and> cookieValue ''__Host-APPROVED_CLIENTS'' h = None
             \<longrightarrow> isClientApproved pf req clientId secret = Inr False)
       \<and> (\<forall>h v. cookieHeader req = Some h \<and> cookieValue ''__Host-APPROVED_CLIENTS'' h = Some v
               \<and> length (splitOn 0x2E v) \<noteq> 2
             \<longrightarrow> isClientApproved pf req clientId secret = Inr False)
       \<and> (\<forall>h v sig b64 payload.
             cookieHeader req = Some h \<and> cookieValue ''__Host-APPROVED_CLIENTS'' h = Some v
               \<and> splitOn 0x2E v = [sig, b64] \<and> atob b64 = Inr payload
               \<and> (matchPairs sig = []
                   \<or> signatureBytes sig \<noteq> hmacSha256 pf (textEncode pf secret) (textEncode pf payload)
                   \<or> jsonParse pf payload = None
                   \<or> (\<exists>a. jsonParse pf payload = Some a \<and> asStringArray a = None))
             \<longrightarrow> isClientApproved pf req clientId secret = Inr False)
       \<and> (\<forall>h v sig b64 payload.
             cookieHeader req = Some h \<and> cookieValue ''__Host-APPROVED_CLIENTS'' h = Some v
               \<and> splitOn 0x2E v = [sig, b64] \<and> atob b64 = Inr payload
             \<longrightarrow> (\<exists>answer. isClientApproved pf req clientId secret = Inr answer))"
proof (intro conjI allI impI)
  assume "cookieHeader req = None"
  then show "isClientApproved pf req clientId secret = Inr False"
    by (simp add: isClientApproved_eq getApproved_no_header)
next
  fix h
  assume "cookieHeader req = Some h \<and> cookieValue ''__Host-APPROVED_CLIENTS'' h = None"
  then show "isClientApproved pf req clientId secret = Inr False"
    by (simp add: isClientApproved_eq getApproved_no_cookie)
next
  fix h v
  assume "cookieHeader req = Some h \<and> cookieValue ''__Host-APPROVED_CLIENTS'' h = Some v
            \<and> length (splitOn 0x2E v) \<noteq> 2"
  then show "isClientApproved pf req clientId secret = Inr False"
    by (simp add: isClientApproved_eq getApproved_parts)
next
  fix h v sig b64 payload
  assume a: "cookieHeader req = Some h \<and> cookieValue ''__Host-APPROVED_CLIENTS'' h = Some v
               \<and> splitOn 0x2E v = [sig, b64] \<and> atob b64 = Inr payload
               \<and> (matchPairs sig = []
                   \<or> signatureBytes sig \<noteq> hmacSha256 pf (textEncode pf secret) (textEncode pf payload)
                   \<or> jsonParse pf payload = None
                   \<or> (\<exists>a. jsonParse pf payload = Some a \<and> asStringArray a = None))"
  then have "getApprovedClientsFromCookie pf req secret = Inr None"
    using getApproved_two_parts [of req h v sig b64 secret pf] assms by auto
  then show "isClientApproved pf req clientId secret = Inr False"
    by (simp add: isClientApproved_eq)
next
  fix h v sig b64 payload
  assume a: "cookieHeader req = Some h \<and> cookieValue ''__Host-APPROVED_CLIENTS'' h = Some v
               \<and> splitOn 0x2E v = [sig, b64] \<and> atob b64 = Inr payload"
  then have "\<exists>found. getApprovedClientsFromCookie pf req secret = Inr found"
    using getApproved_two_parts [of req h v sig b64 secret pf] assms
    by (auto split: option.splits)
  then show "\<exists>answer. isClientApproved pf req clientId secret = Inr answer"
    by (auto simp: isClientApproved_eq)
qed

text \<open>
  No cookie; a signature of one zero byte over \<open>[]\<close>; and the cookie written for \<open>client-A\<close>
  with its payload exchanged for \<open>["client-A","evil"]\<close> under the old signature.
\<close>

theorem isClientApproved_fails_closed_witness:
  "isClientApproved runtime (requestWith [] None) (js ''client-A'') (js ''secret-1'') = Inr False
   \<and> isClientApproved runtime (requestWith [] (Some (js ''__Host-APPROVED_CLIENTS=00.W10='')))
        (js ''client-A'') (js ''secret-1'') = Inr False
   \<and> isClientApproved runtime
        (requestWith []
           (Some (js ''__Host-APPROVED_CLIENTS='' 
                  @ js ''7365637265742d315b22636c69656e742d41225d000000000000000000000000''
                  @ js ''.''
                  @ base64Encode (0x5B # 0x22 # js ''client-A'' @ 0x22 # 0x2C # 0x22 # js ''evil'' @ [0x22, 0x5D]))))
        (js ''client-A'') (js ''secret-1'') = Inr False"
proof -
  let ?evil = "0x5B # 0x22 # js ''client-A'' @ 0x22 # 0x2C # 0x22 # js ''evil'' @ [0x22, 0x5D]"
  let ?mac = "standInMac (utf8Encode (js ''secret-1'')) (utf8Encode (0x5B # 0x22 # js ''client-A'' @ [0x22, 0x5D]))"
  let ?v = "hexOfBytes ?mac @ 0x2E # base64Encode ?evil"
  let ?h = "js ''__Host-APPROVED_CLIENTS'' @ js ''='' @ ?v"
  have 1: "isClientApproved runtime (requestWith [] None) (js ''client-A'') (js ''secret-1'') = Inr False"
    using isClientApproved_fails_closed [OF approved_names(2), of "requestWith [] None" runtime "js ''client-A''"]
    by (simp add: requestWith_def)
  have m: "signatureBytes (js ''00'')
             \<noteq> hmacSha256 runtime (textEncode runtime (js ''secret-1'')) (textEncode runtime (js ''[]''))"
  proof
    assume "signatureBytes (js ''00'')
              = hmacSha256 runtime (textEncode runtime (js ''secret-1'')) (textEncode runtime (js ''[]''))"
    then have "length (signatureBytes (js ''00''))
                 = length (standInMac (utf8Encode (js ''secret-1'')) (utf8Encode (js ''[]'')))"
      by (simp add: runtime_fields)
    then show False by (simp add: zero_signature mac_length)
  qed
  have 2: "isClientApproved runtime (requestWith [] (Some (js ''__Host-APPROVED_CLIENTS=00.W10='')))
        (js ''client-A'') (js ''secret-1'') = Inr False"
    using isClientApproved_fails_closed [OF approved_names(2),
            of "requestWith [] (Some (js ''__Host-APPROVED_CLIENTS=00.W10=''))" runtime "js ''client-A''"]
          zero_cookie(1-3) m
    by (auto simp: requestWith_def)
  have hx: "0x3B \<notin> set (hexOfBytes ?mac)" "0x2E \<notin> set (hexOfBytes ?mac)"
    using lowerHex_set [OF hexOfBytes_lower, of ?mac] by simp_all
  have b: "0x3B \<notin> set (base64Encode ?evil)" "0x2E \<notin> set (base64Encode ?evil)"
    "base64Encode ?evil \<noteq> [] \<Longrightarrow> \<not> isWhiteSpace (last (base64Encode ?evil))"
    using base64Text_set [OF base64Encode_text, of ?evil] by simp_all
  have last: "\<not> isWhiteSpace (last ?v)"
    using b(3) by (cases "base64Encode ?evil = []") (simp_all add: isWhiteSpace_def)
  have cv: "cookieValue ''__Host-APPROVED_CLIENTS'' ?h = Some ?v"
    using hx(1) b(1) last by (intro cookieValue_single cookie_names) simp_all
  have sp: "splitOn 0x2E ?v = [hexOfBytes ?mac, base64Encode ?evil]"
    by (rule splitOn_two [OF hx(2) b(2)])
  have at: "atob (base64Encode ?evil) = Inr ?evil"
    by (rule atob_base64Encode [OF payload_evil(1)])
  have sg: "signatureBytes (hexOfBytes ?mac)
              \<noteq> hmacSha256 runtime (textEncode runtime (js ''secret-1'')) (textEncode runtime ?evil)"
    using payload_evil(2) by (simp add: signatureBytes_def signature_bytes_roundtrip runtime_fields)
  have hdr: "js ''__Host-APPROVED_CLIENTS=''
               @ js ''7365637265742d315b22636c69656e742d41225d000000000000000000000000''
               @ js ''.'' @ base64Encode ?evil = ?h"
    unfolding mac_A by (simp add: js_def)
  have "isClientApproved runtime (requestWith [] (Some ?h)) (js ''client-A'') (js ''secret-1'') = Inr False"
    using isClientApproved_fails_closed [OF approved_names(2),
            of "requestWith [] (Some ?h)" runtime "js ''client-A''"]
          cv sp at sg
    by (auto simp: requestWith_def)
  then have 3: "isClientApproved runtime
        (requestWith []
           (Some (js ''__Host-APPROVED_CLIENTS='' 
                  @ js ''7365637265742d315b22636c69656e742d41225d000000000000000000000000''
                  @ js ''.'' @ base64Encode ?evil)))
        (js ''client-A'') (js ''secret-1'') = Inr False"
    unfolding hdr .
  show ?thesis using 1 2 3 by blast
qed

text \<open>
  Claim C5 as stated fails: with the empty secret a well-formed cookie makes
  \<open>isClientApproved\<close> raise the error of \<open>importKey\<close>, and with a payload that is not base64 it
  raises the \<open>InvalidCharacterError\<close> of \<open>atob\<close>, which stands outside every \<open>try\<close>.
\<close>

theorem isClientApproved_throws_counterexample:
  "isClientApproved runtime (requestWith [] (Some (js ''__Host-APPROVED_CLIENTS=00.W10='')))
      (js ''client-A'') [] = Inl (Error ''cookieSecret is required for signing cookies'')
   \<and> isClientApproved runtime (requestWith [] (Some (js ''__Host-APPROVED_CLIENTS=00.%%%'')))
      (js ''client-A'') (js ''secret-1'') = Inl InvalidCharacterError"
proof -
  have 1: "isClientApproved runtime (requestWith [] (Some (js ''__Host-APPROVED_CLIENTS=00.W10='')))
      (js ''client-A'') [] = Inl (Error ''cookieSecret is required for signing cookies'')"
    by (simp add: isClientApproved_def getApprovedClientsFromCookie_def requestWith_def zero_cookie
        verifySignature_def importKey_def)
  have 2: "isClientApproved runtime (requestWith [] (Some (js ''__Host-APPROVED_CLIENTS=00.%%%'')))
      (js ''client-A'') (js ''secret-1'') = Inl InvalidCharacterError"
    by (simp add: isClientApproved_def getApprovedClientsFromCookie_def requestWith_def bad_cookie)
  show ?thesis using 1 2 by blast
qed







text \<open>
  Claim C8. \<open>sanitizeUrl\<close> returns the empty string when the trimmed input holds a control
  character (U+0000 to U+001F, U+007F to U+009F), does not parse as a URL, or has a scheme other
  than \<open>http\<close> and \<open>https\<close>; otherwise it returns the trimmed input.
\<close>

theorem sanitizeUrl_result:
  "sanitizeUrl pf url =
     (if (\<exists>c\<in>set (trim url). isControl c)
         \<or> urlProtocol pf (trim url) = None
         \<or> (\<exists>protocol. urlProtocol pf (trim url) = Some protocol
               \<and> toLowerCase pf (butlast protocol) \<noteq> js ''http''
               \<and> toLowerCase pf (butlast protocol) \<noteq> js ''https'')
      then [] else trim url)"
  by (auto simp: sanitizeUrl_def hasControlChar_iff allowedSchemes_def Let_def split: option.splits)

text \<open>
  An \<open>https\<close> URL with spaces around it, a \<open>javascript:\<close> URL, a URL with a line feed inside,
  and a relative path.
\<close>

theorem sanitizeUrl_result_witness:
  "sanitizeUrl runtime (js ''  https://example.com/logo.png '') = js ''https://example.com/logo.png''
   \<and> sanitizeUrl runtime (js ''javascript:alert(1)'') = []
   \<and> sanitizeUrl runtime (js ''https://example.com/'' @ 0x0A # js ''x'') = []
   \<and> sanitizeUrl runtime (js ''/logo.png'') = []"
proof -
  have t: "trim (js ''  https://example.com/logo.png '') = js ''https://example.com/logo.png''"
    "trim (js ''javascript:alert(1)'') = js ''javascript:alert(1)''"
    "trim (js ''https://example.com/'' @ 0x0A # js ''x'') = js ''https://example.com/'' @ 0x0A # js ''x''"
    "trim (js ''/logo.png'') = js ''/logo.png''"
    by (simp_all add: trim_def js_def isWhiteSpace_def)
  have p: "urlProtocol runtime (js ''https://example.com/logo.png'') = Some (js ''https:'')"
    "urlProtocol runtime (js ''javascript:alert(1)'') = Some (js ''javascript:'')"
    "urlProtocol runtime (js ''/logo.png'') = None"
    by (simp_all add: runtime_fields schemeProtocol_def js_def isSchemeChar_def asciiLower_def)
  have l: "toLowerCase runtime (butlast (js ''https:'')) = js ''https''"
    "toLowerCase runtime (butlast (js ''javascript:'')) \<noteq> js ''http''"
    "toLowerCase runtime (butlast (js ''javascript:'')) \<noteq> js ''https''"
    by (simp_all add: runtime_fields js_def asciiLower_def)
  have c: "\<not> (\<exists>c\<in>set (js ''https://example.com/logo.png''). isControl c)"
    "\<exists>c\<in>set (js ''https://example.com/'' @ 0x0A # js ''x''). isControl c"
    by (simp_all add: js_def isControl_def)
  have 1: "sanitizeUrl runtime (js ''  https://example.com/logo.png '') = js ''https://example.com/logo.png''"
    using sanitizeUrl_result [of runtime "js ''  https://example.com/logo.png ''"] c(1) p(1) l(1)
    unfolding t by auto
  have 2: "sanitizeUrl runtime (js ''javascript:alert(1)'') = []"
    using sanitizeUrl_result [of runtime "js ''javascript:alert(1)''"] p(2) l(2,3)
    unfolding t by auto
  have 3: "sanitizeUrl runtime (js ''https://example.com/'' @ 0x0A # js ''x'') = []"
    using sanitizeUrl_result [of runtime "js ''https://example.com/'' @ 0x0A # js ''x''"] c(2)
    unfolding t by presburger
  have 4: "sanitizeUrl runtime (js ''/logo.png'') = []"
    using sanitizeUrl_result [of runtime "js ''/logo.png''"] p(3)
    unfolding t by presburger
  show ?thesis using 1 2 3 4 by blast
qed

text \<open>
  Claim C9. \<open>validateOAuthState\<close> fails with \<open>server_error\<close> and status 500 exactly when it
  comes to parse the stored text of a present state token (the state parameter, the record
  and the session binding having passed) and \<open>JSON.parse\<close> throws; every other failure is an
  \<open>invalid_request\<close> with status 400, those for an absent state parameter and an absent record
  among them.
\<close>

theorem corrupt_state_is_server_error:
  "(fst (validateOAuthState pf req store) = Inl corruptState \<longleftrightarrow>
      (\<exists>t stored. stateParam req = Some t \<and> t \<noteq> [] \<and> store (stateKey t) = Some stored \<and> stored \<noteq> []
          \<and> cookieValue ''__Host-CONSENTED_STATE'' (cookieHeaderOrEmpty req) = Some (stateHashHex pf t)
          \<and> stateHashHex pf t \<noteq> [] \<and> jsonParse pf stored = None))
   \<and> (\<forall>e. fst (validateOAuthState pf req store) = Inl e \<and> e \<noteq> corruptState
          \<longrightarrow> (\<exists>description. e = OAuthError ''invalid_request'' description 400))
   \<and> (stateParam req \<in> {None, Some []} \<longrightarrow> fst (validateOAuthState pf req store) = Inl missingState)
   \<and> (\<forall>t. stateParam req = Some t \<and> t \<noteq> [] \<and> store (stateKey t) \<in> {None, Some []}
          \<longrightarrow> fst (validateOAuthState pf req store) = Inl invalidOrExpiredState)"
  by (auto simp: validateOAuthState_def split: option.splits if_splits)

text \<open>
  The record \<open>{not json\<close> under \<open>xyz\<close>, called back by the bound browser.
\<close>

theorem corrupt_state_is_server_error_witness:
  "fst (validateOAuthState runtime (boundCallback runtime (js ''xyz''))
          [stateKey (js ''xyz'') \<mapsto> js ''{not json''])
     = Inl (OAuthError ''server_error'' ''Invalid state data'' 500)"
proof -
  let ?store = "[stateKey (js ''xyz'') \<mapsto> js ''{not json'']"
  have k: "?store (stateKey (js ''xyz'')) = Some (js ''{not json'')" by simp
  have n: "js ''{not json'' \<noteq> []" by (simp add: js_def)
  have h: "stateHashHex runtime (js ''xyz'') \<noteq> []"
    by (simp add: stateHashHex_Nil runtime_fields digest_nonempty)
  have p: "jsonParse runtime (js ''{not json'') = None"
    by (simp add: runtime_fields not_json)
  have "\<exists>t stored. stateParam (boundCallback runtime (js ''xyz'')) = Some t \<and> t \<noteq> []
          \<and> ?store (stateKey t) = Some stored \<and> stored \<noteq> []
          \<and> cookieValue ''__Host-CONSENTED_STATE'' (cookieHeaderOrEmpty (boundCallback runtime (js ''xyz'')))
              = Some (stateHashHex runtime t)
          \<and> stateHashHex runtime t \<noteq> [] \<and> jsonParse runtime stored = None"
    using boundCallback_state [of runtime "js ''xyz''"] xyz_nonempty k n
          boundCallback_cookie [of runtime "js ''xyz''"] h p
    by blast
  then show ?thesis
    using corrupt_state_is_server_error [of runtime "boundCallback runtime (js ''xyz'')" ?store]
    by blast
qed

text \<open>
  Claim C10. \<open>validateCSRFToken\<close> takes an empty token for a missing one: an empty \<open>csrf_token\<close>
  form field raises the missing-form-token error, a \<open>__Host-CSRF_TOKEN\<close> cookie with an empty
  value raises one of the two missing-token errors, and two empty strings do not validate.
\<close>

theorem csrf_empty_token_is_missing:
  "(map_of form (js ''csrf_token'') = Some (FormString [])
      \<longrightarrow> validateCSRFToken form req = Inl missingCSRFForm)
   \<and> (cookieValue ''__Host-CSRF_TOKEN'' (cookieHeaderOrEmpty req) = Some []
      \<longrightarrow> validateCSRFToken form req \<in> {Inl missingCSRFForm, Inl missingCSRFCookie})
   \<and> (map_of form (js ''csrf_token'') = Some (FormString [])
        \<and> cookieValue ''__Host-CSRF_TOKEN'' (cookieHeaderOrEmpty req) = Some []
      \<longrightarrow> validateCSRFToken form req \<noteq> Inr csrfClearCookie)"
  by (auto simp: validateCSRFToken_def split: option.splits formEntry.splits if_splits)

text \<open>
  An empty form field, an empty cookie value, and both.
\<close>

theorem csrf_empty_token_is_missing_witness:
  "validateCSRFToken [(js ''csrf_token'', FormString [])]
      (requestWith [] (Some (js ''__Host-CSRF_TOKEN=abc''))) = Inl missingCSRFForm
   \<and> validateCSRFToken [(js ''csrf_token'', FormString (js ''abc''))]
      (requestWith [] (Some (js ''__Host-CSRF_TOKEN=''))) \<in> {Inl missingCSRFForm, Inl missingCSRFCookie}
   \<and> validateCSRFToken [(js ''csrf_token'', FormString [])]
      (requestWith [] (Some (js ''__Host-CSRF_TOKEN=''))) \<noteq> Inr csrfClearCookie"
proof -
  have c: "cookieValue ''__Host-CSRF_TOKEN''
              (cookieHeaderOrEmpty (requestWith [] (Some (js ''__Host-CSRF_TOKEN='')))) = Some []"
    by (simp add: cookieValue_def cookieHeaderOrEmpty_def requestWith_def js_def trim_def
        isWhiteSpace_def startsWith_def)
  have f: "map_of [(js ''csrf_token'', FormString [])] (js ''csrf_token'') = Some (FormString [])"
    by simp
  from csrf_empty_token_is_missing [of "[(js ''csrf_token'', FormString [])]"
            "requestWith [] (Some (js ''__Host-CSRF_TOKEN=abc''))"] f
  have 1: "validateCSRFToken [(js ''csrf_token'', FormString [])]
      (requestWith [] (Some (js ''__Host-CSRF_TOKEN=abc''))) = Inl missingCSRFForm"
    by blast
  from csrf_empty_token_is_missing [of "[(js ''csrf_token'', FormString (js ''abc''))]"
            "requestWith [] (Some (js ''__Host-CSRF_TOKEN=''))"] c
  have 2: "validateCSRFToken [(js ''csrf_token'', FormString (js ''abc''))]
      (requestWith [] (Some (js ''__Host-CSRF_TOKEN=''))) \<in> {Inl missingCSRFForm, Inl missingCSRFCookie}"
    by blast
  from csrf_empty_token_is_missing [of "[(js ''csrf_token'', FormString [])]"
            "requestWith [] (Some (js ''__Host-CSRF_TOKEN=''))"] f c
  have 3: "validateCSRFToken [(js ''csrf_token'', FormString [])]
      (requestWith [] (Some (js ''__Host-CSRF_TOKEN=''))) \<noteq> Inr csrfClearCookie"
    by blast
  show ?thesis using 1 2 3 by blast
qed

section \<open>Further properties\<close>

text \<open>
  When the approval cookie has two parts and \<open>atob\<close> refuses the second, \<open>isClientApproved\<close>
  and \<open>addApprovedClient\<close> raise that error, whatever the secret: the call of \<open>atob\<close> in
  \<open>getApprovedClientsFromCookie\<close> stands outside every \<open>try\<close>.
\<close>

theorem undecodable_payload_raises:
  assumes "cookieHeader req = Some h"
    and "cookieValue ''__Host-APPROVED_CLIENTS'' h = Some v"
    and "splitOn 0x2E v = [sig, b64]"
    and "atob b64 = Inl e"
  shows "isClientApproved pf req clientId secret = Inl e
       \<and> addApprovedClient pf req clientId secret = Inl e"
proof -
  have "h \<noteq> []" using assms(2) by (auto simp: cookieValue_empty_header)
  then have "getApprovedClientsFromCookie pf req secret = Inl e"
    using assms by (simp add: getApprovedClientsFromCookie_def)
  then show ?thesis by (simp add: isClientApproved_def addApprovedClient_def)
qed

text \<open>
  The cookie value \<open>00.%%%\<close>.
\<close>

theorem undecodable_payload_raises_witness:
  "isClientApproved runtime (requestWith [] (Some (js ''__Host-APPROVED_CLIENTS=00.%%%'')))
      (js ''client-B'') (js ''secret-2'') = Inl InvalidCharacterError
   \<and> addApprovedClient runtime (requestWith [] (Some (js ''__Host-APPROVED_CLIENTS=00.%%%'')))
      (js ''client-B'') (js ''secret-2'') = Inl InvalidCharacterError"
  using undecodable_payload_raises [OF _ bad_cookie(1-3),
          of "requestWith [] (Some (js ''__Host-APPROVED_CLIENTS=00.%%%''))" runtime "js ''client-B''" "js ''secret-2''"]
  by (simp add: requestWith_def)

text \<open>
  \<open>verifySignature\<close> accepts what \<open>signData\<close> wrote: the signature is the lowercase
  hexadecimal text of the MAC, it verifies for the signed text under the same secret, and it
  verifies for no text with another MAC.
\<close>

theorem sign_then_verify:
  assumes "secret \<noteq> []"
    and "signData pf payload secret = Inr signature"
    and "hmacSha256 pf (textEncode pf secret) (textEncode pf payload) \<noteq> []"
  shows "verifySignature pf signature payload secret = Inr True
       \<and> signature = hexOfBytes (hmacSha256 pf (textEncode pf secret) (textEncode pf payload))
       \<and> list_all isLowerHex signature
       \<and> (\<forall>other. hmacSha256 pf (textEncode pf secret) (textEncode pf other)
                     \<noteq> hmacSha256 pf (textEncode pf secret) (textEncode pf payload)
            \<longrightarrow> verifySignature pf signature other secret = Inr False)"
proof -
  have s: "signature = hexOfBytes (hmacSha256 pf (textEncode pf secret) (textEncode pf payload))"
    using assms(1,2) by (simp add: signData_eq)
  show ?thesis
    using assms(1,3)
    by (auto simp: s verifySignature_eq matchPairs_hex_Nil signatureBytes_def
        signature_bytes_roundtrip hexOfBytes_lower)
qed

text \<open>
  The signature of \<open>["client-A"]\<close> under \<open>secret-1\<close>.
\<close>

theorem sign_then_verify_witness:
  "verifySignature runtime
     (js ''7365637265742d315b22636c69656e742d41225d000000000000000000000000'')
     (0x5B # 0x22 # js ''client-A'' @ [0x22, 0x5D]) (js ''secret-1'') = Inr True"
proof -
  have s: "signData runtime (0x5B # 0x22 # js ''client-A'' @ [0x22, 0x5D]) (js ''secret-1'')
             = Inr (js ''7365637265742d315b22636c69656e742d41225d000000000000000000000000'')"
    by (simp only: signData_eq [OF approved_names(2)] runtime_fields mac_A)
  have m: "hmacSha256 runtime (textEncode runtime (js ''secret-1''))
             (textEncode runtime (0x5B # 0x22 # js ''client-A'' @ [0x22, 0x5D])) \<noteq> []"
    by (simp add: runtime_fields mac_nonempty)
  show ?thesis using sign_then_verify [OF approved_names(2) s m] by blast
qed

text \<open>
  The token and the cookie that \<open>generateCSRFProtection\<close> issues validate together, and
  no other form token validates against that cookie (for a token without semicolon that does
  not end in white space, as a UUID is).
\<close>

theorem csrf_issue_then_validate:
  assumes "uuid \<noteq> []" "0x3B \<notin> set uuid" "\<not> isWhiteSpace (last uuid)"
  shows "validateCSRFToken
           [(js ''csrf_token'', FormString (csrfToken (generateCSRFProtection uuid)))]
           (requestCarrying (csrfSetCookie (generateCSRFProtection uuid)))
         = Inr csrfClearCookie
       \<and> (\<forall>other. other \<noteq> uuid \<longrightarrow>
            validateCSRFToken [(js ''csrf_token'', FormString other)]
              (requestCarrying (csrfSetCookie (generateCSRFProtection uuid)))
            \<noteq> Inr csrfClearCookie)"
proof -
  let ?p = "js ''__Host-CSRF_TOKEN'' @ js ''='' @ uuid"
  have "0x3B \<notin> set ?p" using assms(2) by (simp add: js_def)
  then have "cookiePair (?p @ 0x3B # js '' HttpOnly; Secure; Path=/; SameSite=Lax; Max-Age=600'') = ?p"
    by (rule cookiePair_directive)
  then have pair: "cookiePair (csrfSetCookie (generateCSRFProtection uuid)) = ?p"
    by (simp add: generateCSRFProtection_def js_def)
  have cv: "cookieValue ''__Host-CSRF_TOKEN'' ?p = Some uuid"
    using assms by (intro cookieValue_single cookie_names) simp_all
  have c: "cookieValue ''__Host-CSRF_TOKEN''
             (cookieHeaderOrEmpty (requestCarrying (csrfSetCookie (generateCSRFProtection uuid))))
           = Some uuid"
    by (simp add: requestCarrying_def requestWith_def cookieHeaderOrEmpty_def pair cv)
  show ?thesis
    using assms(1) c by (auto simp: validateCSRFToken_def generateCSRFProtection_def)
qed

text \<open>
  The token \<open>abc\<close>.
\<close>

theorem csrf_issue_then_validate_witness:
  "validateCSRFToken
     [(js ''csrf_token'', FormString (csrfToken (generateCSRFProtection (js ''abc''))))]
     (requestCarrying (csrfSetCookie (generateCSRFProtection (js ''abc''))))
   = Inr csrfClearCookie"
proof -
  have h: "js ''abc'' \<noteq> []" "0x3B \<notin> set (js ''abc'')" "\<not> isWhiteSpace (last (js ''abc''))"
    by (simp_all add: js_def isWhiteSpace_def)
  show ?thesis using csrf_issue_then_validate [OF h] by blast
qed

end
